theory Spec2Isabelle
  imports Main
begin

unbundle bit_operations_syntax

section \<open>GCS URI helper (gcs\_util.py)\<close>

text \<open>
  Python's \<^verbatim>\<open>str.startswith(prefix)\<close>: the first \<open>len(prefix)\<close> characters of the
  string are the prefix. It is defined for every pair of strings.
\<close>

definition startswith :: "string \<Rightarrow> string \<Rightarrow> bool" where
  "startswith s p = (take (length p) s = p)"

definition GCS_PREFIX :: string where
  "GCS_PREFIX = ''gs://''"

definition is_gcs_uri :: "string \<Rightarrow> bool" where
  "is_gcs_uri uri = startswith uri GCS_PREFIX"

section \<open>Errors and the process state\<close>

text \<open>
  The exceptions that construction can raise. \<open>ValidationError\<close> is pydantic's: it
  carries the names of the fields whose validation failed, in field order. pydantic
  collects only \<open>ValueError\<close>, \<open>TypeError\<close> and \<open>AssertionError\<close> from a
  validator into it; any other exception, such as \<open>KeyError\<close> or \<open>OverflowError\<close>,
  leaves the constructor at once. \<open>FileExistsError\<close> is what \<^verbatim>\<open>tempfile\<close> raises
  when it finds no unused name, \<open>UnicodeEncodeError\<close> what \<^verbatim>\<open>str.encode\<close> raises on
  a character that has no encoding.

  Modelled from the spec: \<open>ConfigurationError\<close> (imported from
  \<^verbatim>\<open>datahub.configuration.common\<close>) is a distinct configuration-error kind that
  carries a human-readable message. It is none of the three kinds that pydantic
  collects, so it too leaves the constructor at once.
\<close>

datatype error =
    ValidationError "string list"
  | ConfigurationError string
  | KeyError string
  | OverflowError
  | UnicodeEncodeError
  | FileExistsError

text \<open>
  What the code reads and writes outside its objects: the process environment
  (\<^verbatim>\<open>os.environ\<close>), the files on disk (path to content, the content being bytes),
  the names the temporary-file name generator yields next, and the records handed to the
  loggers (level and message).
\<close>

record world =
  environ :: "string \<rightharpoonup> string"
  files :: "string \<rightharpoonup> string"
  tmp_names :: "string list"
  log :: "(string \<times> string) list"

text \<open>
  A computation that may raise: it returns the exception or a value, and the state it
  leaves behind in either case.
\<close>

type_synonym 'a ex = "world \<Rightarrow> (error + 'a) \<times> world"

definition returns :: "'a \<Rightarrow> 'a ex" where
  "returns a w = (Inr a, w)"

definition raises :: "error \<Rightarrow> 'a ex" where
  "raises e w = (Inl e, w)"

definition and_then :: "'a ex \<Rightarrow> ('a \<Rightarrow> 'b ex) \<Rightarrow> 'b ex" where
  "and_then m f w = (case m w of (Inl e, w1) \<Rightarrow> (Inl e, w1) | (Inr a, w1) \<Rightarrow> f a w1)"

section \<open>Python strings as code points\<close>

text \<open>
  A Python \<open>str\<close> is a sequence of Unicode code points, each below \<open>0x110000\<close>; the
  surrogate code points \<open>0xD800\<close> to \<open>0xDFFF\<close> may occur in it like any other. The
  strings whose characters the code looks at one by one, those that pass through the
  JSON encoder (the values of the key's fields, the names of the fields, the JSON text),
  are lists of code points; a code point is a natural number, and \<open>is_str\<close> says that a
  list of numbers is a Python string. \<open>lit\<close> is a string literal of the source as such
  a list. Strings that the code only compares, joins or hands on (names of variables and
  files, messages, project ids, patterns) are HOL strings, and so are bytes.
\<close>

type_synonym str = "nat list"

definition lit :: "string \<Rightarrow> str" where
  "lit s = map of_char s"

definition is_str :: "str \<Rightarrow> bool" where
  "is_str s = list_all (\<lambda>c. c < 0x110000) s"

text \<open>
  \<^verbatim>\<open>s.encode()\<close>: the UTF-8 bytes of the string, one to four bytes for each code
  point. A surrogate has no encoding, and the call raises.
\<close>

definition utf8 :: "nat \<Rightarrow> string option" where
  "utf8 c =
     (if c < 0x80 then Some [char_of c]
      else if c < 0x800 then Some [char_of (0xC0 + c div 64), char_of (0x80 + c mod 64)]
      else if 0xD800 \<le> c \<and> c \<le> 0xDFFF then None
      else if c < 0x10000 then
        Some [char_of (0xE0 + c div 4096), char_of (0x80 + c div 64 mod 64),
              char_of (0x80 + c mod 64)]
      else
        Some [char_of (0xF0 + c div 262144), char_of (0x80 + c div 4096 mod 64),
              char_of (0x80 + c div 64 mod 64), char_of (0x80 + c mod 64)])"

fun encode :: "str \<Rightarrow> error + string" where
  "encode [] = Inr []"
| "encode (c # cs) =
     (case utf8 c of
        None \<Rightarrow> Inl UnicodeEncodeError
      | Some bs \<Rightarrow> (case encode cs of Inl e \<Rightarrow> Inl e | Inr r \<Rightarrow> Inr (bs @ r)))"

text \<open>
  \<^verbatim>\<open>b.decode("ascii")\<close>: the bytes as characters, when every byte is below 128; it
  raises otherwise (\<open>None\<close>).
\<close>

definition decode_ascii :: "string \<Rightarrow> str option" where
  "decode_ascii b = (if list_all (\<lambda>c. (of_char c :: nat) < 0x80) b then Some (map of_char b) else None)"

section \<open>JSON text of a flat dict (json.dumps, json.loads)\<close>

text \<open>
  \<^verbatim>\<open>create_credential_temp_file\<close> calls
  \<^verbatim>\<open>json.dumps(self.dict(), indent=4, separators=(",", ": "))\<close> on a dict whose keys are
  strings and whose values are strings or \<open>None\<close>. The encoder below is CPython's
  \<^verbatim>\<open>json.encoder\<close> on such a dict (an association list in key order), with
  \<open>ensure_ascii\<close> at its default.

  \<open>ESCAPE_ASCII\<close> is the pattern \<^verbatim>\<open>([\\"]|[^\ -~])\<close>, \<open>ESCAPE_DCT\<close> the table of
  short escapes, and \<open>replace\<close> the substitution of one matched character: its short
  escape, else \<^verbatim>\<open>\uXXXX\<close> with four hexadecimal digits for a code point below
  \<open>0x10000\<close>, else the two escapes of its surrogate pair. (The entries that CPython adds
  to \<open>ESCAPE_DCT\<close> for the control characters are their \<^verbatim>\<open>\uXXXX\<close> escapes, which
  \<open>replace\<close> computes.) \<open>hexdigit\<close> is a digit of \<^verbatim>\<open>'{0:04x}'.format(n)\<close>.
\<close>

definition hexdigit :: "nat \<Rightarrow> nat" where
  "hexdigit n = (if n < 10 then 0x30 + n else 0x61 + (n - 10))"

definition u_escape :: "nat \<Rightarrow> str" where
  "u_escape n =
     [0x5C, 0x75, hexdigit (n div 4096 mod 16), hexdigit (n div 256 mod 16),
      hexdigit (n div 16 mod 16), hexdigit (n mod 16)]"

definition ESCAPE_DCT :: "nat \<rightharpoonup> str" where
  "ESCAPE_DCT = map_of
     [(0x5C, [0x5C, 0x5C]),
      (0x22, [0x5C, 0x22]),
      (0x08, [0x5C, 0x62]),
      (0x0C, [0x5C, 0x66]),
      (0x0A, [0x5C, 0x6E]),
      (0x0D, [0x5C, 0x72]),
      (0x09, [0x5C, 0x74])]"

definition ESCAPE_ASCII :: "nat \<Rightarrow> bool" where
  "ESCAPE_ASCII c = (c = 0x5C \<or> c = 0x22 \<or> \<not> (0x20 \<le> c \<and> c \<le> 0x7E))"

definition replace :: "nat \<Rightarrow> str" where
  "replace c =
     (case ESCAPE_DCT c of
        Some e \<Rightarrow> e
      | None \<Rightarrow>
          if c < 0x10000 then u_escape c
          else
            (let n = c - 0x10000;
                 s1 = 0xd800 OR (drop_bit 10 n AND 0x3ff);
                 s2 = 0xdc00 OR (n AND 0x3ff)
             in u_escape s1 @ u_escape s2))"

definition encode_chars :: "str \<Rightarrow> str" where
  "encode_chars s = concat (map (\<lambda>c. if ESCAPE_ASCII c then replace c else [c]) s)"

definition py_encode_basestring_ascii :: "str \<Rightarrow> str" where
  "py_encode_basestring_ascii s = 0x22 # encode_chars s @ [0x22]"

definition encode_value :: "str option \<Rightarrow> str" where
  "encode_value v = (case v of None \<Rightarrow> lit ''null'' | Some s \<Rightarrow> py_encode_basestring_ascii s)"

text \<open>
  \<^verbatim>\<open>_iterencode_dict\<close> at indent level 1 with \<open>indent=4\<close>: an empty dict is \<open>{}\<close>;
  otherwise \<open>{\<close>, a newline and four spaces, the items \<open>key: value\<close> separated by a
  comma, a newline and four spaces, then a newline and \<open>}\<close>.
\<close>

definition newline_indent :: str where
  "newline_indent = 0x0A # replicate 4 0x20"

definition encode_item :: "str \<times> str option \<Rightarrow> str" where
  "encode_item kv = py_encode_basestring_ascii (fst kv) @ lit '': '' @ encode_value (snd kv)"

fun iterencode_rest :: "(str \<times> str option) list \<Rightarrow> str" where
  "iterencode_rest [] = [0x0A, 0x7D]"
| "iterencode_rest (kv # kvs) = lit '','' @ newline_indent @ encode_item kv @ iterencode_rest kvs"

definition json_dumps :: "(str \<times> str option) list \<Rightarrow> str" where
  "json_dumps dct =
     (case dct of
        [] \<Rightarrow> lit ''{}''
      | kv # kvs \<Rightarrow> lit ''{'' @ newline_indent @ encode_item kv @ iterencode_rest kvs)"

text \<open>
  The reader of such a text, after CPython's \<^verbatim>\<open>json.decoder\<close> (\<^verbatim>\<open>scanstring\<close>,
  \<^verbatim>\<open>JSONObject\<close>, \<^verbatim>\<open>JSONDecoder.decode\<close>), for an object whose values are strings
  or \<open>null\<close>: any other value, a malformed text or trailing data gives \<open>None\<close>. The
  result lists the pairs in the order of the text, from which Python builds the dict.

  \<open>scanstring\<close> starts after the opening quote and returns the decoded string and the
  text after the closing quote. Control characters inside a string are refused, as in
  strict mode; every other character stands for itself. After \<^verbatim>\<open>\u\<close> come four
  hexadecimal digits (\<open>decode_uXXXX\<close>, which is given the text after the \<open>u\<close>;
  this is the scanner that \<^verbatim>\<open>json.loads\<close> runs, and the fallback written in Python
  differs from it only in what else it takes for four digits). When
  they give a high surrogate and another \<^verbatim>\<open>\u\<close> escape follows at once, that one is
  read too: if it gives a low surrogate, the two escapes together stand for the one
  character of the pair; if not, the first stands for itself and reading goes on at the
  second.
\<close>

definition unhex :: "nat \<Rightarrow> nat option" where
  "unhex c =
     (if 0x30 \<le> c \<and> c \<le> 0x39 then Some (c - 0x30)
      else if 0x61 \<le> c \<and> c \<le> 0x66 then Some (c - 0x61 + 10)
      else if 0x41 \<le> c \<and> c \<le> 0x46 then Some (c - 0x41 + 10)
      else None)"

definition decode_uXXXX :: "str \<Rightarrow> nat option" where
  "decode_uXXXX s =
     (case take 4 s of
        [a, b, c, d] \<Rightarrow>
          (case (unhex a, unhex b, unhex c, unhex d) of
             (Some x, Some y, Some z, Some w) \<Rightarrow> Some (4096 * x + 256 * y + 16 * z + w)
           | _ \<Rightarrow> None)
      | _ \<Rightarrow> None)"

definition BACKSLASH :: "nat \<rightharpoonup> nat" where
  "BACKSLASH = map_of
     [(0x22, 0x22), (0x5C, 0x5C), (0x2F, 0x2F),
      (0x62, 0x08), (0x66, 0x0C), (0x6E, 0x0A),
      (0x72, 0x0D), (0x74, 0x09)]"

text \<open>\<^verbatim>\<open>_append(char)\<close>, then the rest of the loop.\<close>

definition append_char :: "nat \<Rightarrow> (str \<times> str) option \<Rightarrow> (str \<times> str) option" where
  "append_char ch r = (case r of None \<Rightarrow> None | Some (s, rest) \<Rightarrow> Some (ch # s, rest))"

function scanstring :: "str \<Rightarrow> (str \<times> str) option" where
  "scanstring [] = None"
| "scanstring (c # cs) =
     (if c = 0x22 then Some ([], cs)
      else if c = 0x5C then
        (case cs of
           [] \<Rightarrow> None
         | esc # cs1 \<Rightarrow>
             if esc \<noteq> 0x75 then
               (case BACKSLASH esc of
                  None \<Rightarrow> None
                | Some ch \<Rightarrow> append_char ch (scanstring cs1))
             else
               (case decode_uXXXX cs1 of
                  None \<Rightarrow> None
                | Some uni \<Rightarrow>
                    if 0xd800 \<le> uni \<and> uni \<le> 0xdbff \<and> take 2 (drop 4 cs1) = [0x5C, 0x75] then
                      (case decode_uXXXX (drop 6 cs1) of
                         None \<Rightarrow> None
                       | Some uni2 \<Rightarrow>
                           if 0xdc00 \<le> uni2 \<and> uni2 \<le> 0xdfff then
                             append_char
                               (0x10000 + (push_bit 10 (uni - 0xd800) OR (uni2 - 0xdc00)))
                               (scanstring (drop 10 cs1))
                           else append_char uni (scanstring (drop 4 cs1)))
                    else append_char uni (scanstring (drop 4 cs1))))
      else if c < 0x20 then None
      else append_char c (scanstring cs))"
  by pat_completeness auto

termination
  by (relation "measure length") auto

declare scanstring.simps [simp del]

definition is_ws :: "nat \<Rightarrow> bool" where
  "is_ws c = (c = 0x20 \<or> c = 0x09 \<or> c = 0x0A \<or> c = 0x0D)"

definition skip_ws :: "str \<Rightarrow> str" where
  "skip_ws s = dropWhile is_ws s"

definition scan_once :: "str \<Rightarrow> (str option \<times> str) option" where
  "scan_once s =
     (case s of
        [] \<Rightarrow> None
      | c # cs \<Rightarrow>
          if c = 0x22 then
            (case scanstring cs of None \<Rightarrow> None | Some (v, r) \<Rightarrow> Some (Some v, r))
          else if c = 0x6E \<and> take 4 s = lit ''null'' then Some (None, drop 4 s)
          else None)"

text \<open>
  The \<^verbatim>\<open>while True\<close> loop of \<^verbatim>\<open>JSONObject\<close>, entered after the opening quote of a
  key. Each round consumes at least one character, so the length of the text bounds the
  number of rounds; the first argument counts them down.
\<close>

fun JSONObject_loop :: "nat \<Rightarrow> str \<Rightarrow> ((str \<times> str option) list \<times> str) option" where
  "JSONObject_loop 0 s = None"
| "JSONObject_loop (Suc n) s =
     (case scanstring s of
        None \<Rightarrow> None
      | Some (key, s1) \<Rightarrow>
         (case skip_ws s1 of
            [] \<Rightarrow> None
          | c # s2 \<Rightarrow>
             if c \<noteq> 0x3A then None
             else
               (case scan_once (skip_ws s2) of
                  None \<Rightarrow> None
                | Some (v, s3) \<Rightarrow>
                   (case skip_ws s3 of
                      [] \<Rightarrow> None
                    | nextchar # s4 \<Rightarrow>
                       if nextchar = 0x7D then Some ([(key, v)], s4)
                       else if nextchar \<noteq> 0x2C then None
                       else
                         (case skip_ws s4 of
                            [] \<Rightarrow> None
                          | q # s5 \<Rightarrow>
                             if q \<noteq> 0x22 then None
                             else
                               (case JSONObject_loop n s5 of
                                  None \<Rightarrow> None
                                | Some (pairs, r) \<Rightarrow> Some ((key, v) # pairs, r)))))))"

definition JSONObject :: "str \<Rightarrow> ((str \<times> str option) list \<times> str) option" where
  "JSONObject s =
     (case skip_ws s of
        [] \<Rightarrow> None
      | c # cs \<Rightarrow>
          if c = 0x7D then Some ([], cs)
          else if c = 0x22 then JSONObject_loop (length cs) cs
          else None)"

definition json_loads :: "str \<Rightarrow> (str \<times> str option) list option" where
  "json_loads s =
     (case skip_ws s of
        [] \<Rightarrow> None
      | c # cs \<Rightarrow>
          if c \<noteq> 0x7B then None
          else
            (case JSONObject cs of
               None \<Rightarrow> None
             | Some (pairs, r) \<Rightarrow> if skip_ws r = [] then Some pairs else None))"

section \<open>How pydantic fills a field\<close>

text \<open>
  The classes are pydantic (version 1) models. Constructing one walks over the fields in
  declaration order (inherited fields first) and, for each field:
  \<^item> when the keyword is not supplied: a required field is reported as an error, any other
    field takes its default, and the validators of the class are \<^emph>\<open>not\<close> called (none
    of the validators here is declared \<^verbatim>\<open>always=True\<close>);
  \<^item> when \<open>None\<close> is supplied: a field that is not \<open>Optional\<close> reports an error;
    an \<open>Optional\<close> field skips the validation of its type, and the validators of the
    class are called on \<open>None\<close>;
  \<^item> when a value is supplied: after the validation of its type the validators of the
    class are called on it.

  A validator of the class receives the value and the dict \<open>values\<close> of the fields
  validated so far; what it returns is stored in \<open>values\<close>.

  A constructor argument is modelled at the type of its annotation, so arguments of a
  wrong type are not inputs of the model; the one exception is the \<open>timedelta\<close>
  field of \<open>BigQueryUsageConfig\<close>, whose argument is a number of seconds. For an \<open>Optional[T]\<close> field the argument is
  a \<open>T option option\<close>: \<open>None\<close> when the keyword is not supplied, \<open>Some None\<close> for
  an explicit \<open>None\<close>, \<open>Some (Some v)\<close> for a value. For a field of type \<open>T\<close> it is
  a \<open>T option\<close>: \<open>None\<close> when the keyword is not supplied (or is \<open>None\<close>, for a
  required field: both are errors of that field).
\<close>

definition default_field :: "'a \<Rightarrow> 'a option \<Rightarrow> 'a" where
  "default_field dflt a = (case a of None \<Rightarrow> dflt | Some v \<Rightarrow> v)"

definition optional_field :: "'a option \<Rightarrow> 'a option option \<Rightarrow> 'a option" where
  "optional_field dflt a = (case a of None \<Rightarrow> dflt | Some v \<Rightarrow> v)"

text \<open>The value supplied for an \<open>Optional\<close> field, if one other than \<open>None\<close> was.\<close>

definition supplied :: "'a option option \<Rightarrow> 'a option" where
  "supplied a = (case a of Some (Some v) \<Rightarrow> Some v | _ \<Rightarrow> None)"

definition missing :: "(string \<times> 'a option) list \<Rightarrow> string list" where
  "missing fs = map fst (filter (\<lambda>f. snd f = None) fs)"

section \<open>Service account key (gcp\_common.py, GCPServiceAccountKey)\<close>

text \<open>
  The ten fields of the class, in declaration order. The record is used at three types:
  the constructor arguments, the dict \<open>values\<close> that the root validator receives (a
  required field that failed validation is absent from it: \<open>None\<close>), and the object.
  \<open>'r\<close> is the type of the five required fields, \<open>'d\<close> of the four fields with a
  default, \<open>'c\<close> of \<open>client_x509_cert_url\<close>.
\<close>

record ('r, 'd, 'c) GCPServiceAccountKey_fields =
  project_id :: 'r
  private_key_id :: 'r
  private_key :: 'r
  client_email :: 'r
  client_id :: 'r
  auth_uri :: 'd
  token_uri :: 'd
  auth_provider_x509_cert_url :: 'd
  type :: 'd
  client_x509_cert_url :: 'c

type_synonym GCPServiceAccountKey_data =
  "(str option, str option, str option option) GCPServiceAccountKey_fields"

type_synonym GCPServiceAccountKey_values =
  "(str option, str, str option) GCPServiceAccountKey_fields"

type_synonym GCPServiceAccountKey =
  "(str, str, str option) GCPServiceAccountKey_fields"

definition GCPServiceAccountKey_validate_fields ::
  "GCPServiceAccountKey_data \<Rightarrow> GCPServiceAccountKey_values \<times> string list" where
  "GCPServiceAccountKey_validate_fields data =
     (\<lparr> project_id = project_id data,
        private_key_id = private_key_id data,
        private_key = private_key data,
        client_email = client_email data,
        client_id = client_id data,
        auth_uri =
          default_field (lit ''https://accounts.google.com/o/oauth2/auth'') (auth_uri data),
        token_uri = default_field (lit ''https://oauth2.googleapis.com/token'') (token_uri data),
        auth_provider_x509_cert_url =
          default_field (lit ''https://www.googleapis.com/oauth2/v1/certs'')
            (auth_provider_x509_cert_url data),
        type = default_field (lit ''service_account'') (type data),
        client_x509_cert_url = optional_field None (client_x509_cert_url data) \<rparr>,
      missing
        [(''project_id'', project_id data),
         (''private_key_id'', private_key_id data),
         (''private_key'', private_key data),
         (''client_email'', client_email data),
         (''client_id'', client_id data)])"

text \<open>
  The root validator. \<^verbatim>\<open>values.get("client_x509_cert_url") is None\<close> holds when the
  field is \<open>None\<close>; \<^verbatim>\<open>values["client_email"]\<close> raises \<open>KeyError\<close> when the key is
  absent.
\<close>

definition validate_config ::
  "GCPServiceAccountKey_values \<Rightarrow> error + GCPServiceAccountKey_values" where
  "validate_config values =
     (if client_x509_cert_url values = None then
        (case client_email values of
           None \<Rightarrow> Inl (KeyError ''client_email'')
         | Some email \<Rightarrow>
             Inr (values\<lparr>client_x509_cert_url :=
                    Some (lit ''https://www.googleapis.com/robot/v1/metadata/x509/'' @ email)\<rparr>))
      else Inr values)"

text \<open>
  Construction: the fields, then the root validator (it is declared without
  \<^verbatim>\<open>skip_on_failure\<close>, so it runs also after a field has failed), then
  \<open>ValidationError\<close> if any error was collected, else the object.
\<close>

definition GCPServiceAccountKey_init :: "GCPServiceAccountKey_data \<Rightarrow> error + GCPServiceAccountKey" where
  "GCPServiceAccountKey_init data =
     (case GCPServiceAccountKey_validate_fields data of
        (values0, errors) \<Rightarrow>
          (case validate_config values0 of
             Inl e \<Rightarrow> Inl e
           | Inr values \<Rightarrow>
               if errors \<noteq> [] then Inl (ValidationError errors)
               else
                 (case (project_id values, private_key_id values, private_key values,
                        client_email values, client_id values) of
                    (Some a, Some b, Some c, Some d, Some e) \<Rightarrow>
                      Inr \<lparr> project_id = a, private_key_id = b, private_key = c,
                            client_email = d, client_id = e,
                            auth_uri = auth_uri values, token_uri = token_uri values,
                            auth_provider_x509_cert_url = auth_provider_x509_cert_url values,
                            type = type values,
                            client_x509_cert_url = client_x509_cert_url values \<rparr>
                  | _ \<Rightarrow> Inl (ValidationError errors))))"

text \<open>\<^verbatim>\<open>self.dict()\<close>: the fields and their values, in declaration order.\<close>

definition dict :: "GCPServiceAccountKey \<Rightarrow> (str \<times> str option) list" where
  "dict self =
     [(lit ''project_id'', Some (project_id self)),
      (lit ''private_key_id'', Some (private_key_id self)),
      (lit ''private_key'', Some (private_key self)),
      (lit ''client_email'', Some (client_email self)),
      (lit ''client_id'', Some (client_id self)),
      (lit ''auth_uri'', Some (auth_uri self)),
      (lit ''token_uri'', Some (token_uri self)),
      (lit ''auth_provider_x509_cert_url'', Some (auth_provider_x509_cert_url self)),
      (lit ''type'', Some (type self)),
      (lit ''client_x509_cert_url'', client_x509_cert_url self)]"

text \<open>
  \<^verbatim>\<open>tempfile.NamedTemporaryFile(delete=False)\<close> tries the names of the generator in
  turn and creates, empty, the first one that does not exist; it raises when none is
  left. The body of the \<^verbatim>\<open>with\<close> block then writes the bytes of the JSON text and
  returns the name; were \<^verbatim>\<open>encode()\<close> to raise, the empty file would stay.
\<close>

fun mkstemp_inner :: "(string \<rightharpoonup> string) \<Rightarrow> string list \<Rightarrow> (string \<times> string list) option" where
  "mkstemp_inner fs [] = None"
| "mkstemp_inner fs (name # names) =
     (if fs name = None then Some (name, names) else mkstemp_inner fs names)"

definition NamedTemporaryFile :: "string ex" where
  "NamedTemporaryFile w =
     (case mkstemp_inner (files w) (tmp_names w) of
        None \<Rightarrow> (Inl FileExistsError, w\<lparr>tmp_names := []\<rparr>)
      | Some (name, names) \<Rightarrow>
          (Inr name, w\<lparr>files := (files w)(name \<mapsto> []), tmp_names := names\<rparr>))"

definition create_credential_temp_file :: "GCPServiceAccountKey \<Rightarrow> string ex" where
  "create_credential_temp_file self w =
     (case NamedTemporaryFile w of
        (Inl e, w1) \<Rightarrow> (Inl e, w1)
      | (Inr name, w1) \<Rightarrow>
          (let cred_json = json_dumps (dict self) in
           case encode cred_json of
             Inl e \<Rightarrow> (Inl e, w1)
           | Inr bytes \<Rightarrow> (Inr name, w1\<lparr>files := (files w1)(name \<mapsto> bytes)\<rparr>)))"

section \<open>Surrogates in the JSON text\<close>

text \<open>
  With \<open>ensure_ascii\<close> the encoder writes a character above \<open>0xFFFF\<close> as the escapes
  of the two surrogates of its pair, and the reader joins the escape of a high surrogate
  and the escape of a low surrogate that follow one another into one character. A string
  that itself holds a high surrogate followed at once by a low one (\<open>split_pair\<close>) is
  therefore written like the one character of that pair. \<open>join_surrogates\<close> is the
  string with every such pair replaced by its character, and \<open>restored\<close> an item of
  the dict with key and value so treated.
\<close>

definition high_surrogate :: "nat \<Rightarrow> bool" where
  "high_surrogate c = (0xd800 \<le> c \<and> c \<le> 0xdbff)"

definition low_surrogate :: "nat \<Rightarrow> bool" where
  "low_surrogate c = (0xdc00 \<le> c \<and> c \<le> 0xdfff)"

fun split_pair :: "str \<Rightarrow> bool" where
  "split_pair (a # b # s) = ((high_surrogate a \<and> low_surrogate b) \<or> split_pair (b # s))"
| "split_pair [a] = False"
| "split_pair [] = False"

fun join_surrogates :: "str \<Rightarrow> str" where
  "join_surrogates (a # b # s) =
     (if high_surrogate a \<and> low_surrogate b
      then (0x10000 + (a - 0xd800) * 1024 + (b - 0xdc00)) # join_surrogates s
      else a # join_surrogates (b # s))"
| "join_surrogates [a] = [a]"
| "join_surrogates [] = []"

definition restored :: "str \<times> str option \<Rightarrow> str \<times> str option" where
  "restored kv = (join_surrogates (fst kv), map_option join_surrogates (snd kv))"

text \<open>
  The strings that a key holds as the values of its fields; an item of a dict whose key
  and value are Python strings; a text of ASCII characters; and a text that does not go
  on with the escape of a low surrogate.
\<close>

definition field_values :: "GCPServiceAccountKey \<Rightarrow> str list" where
  "field_values self =
     [GCPServiceAccountKey_fields.project_id self, private_key_id self, private_key self,
      client_email self, client_id self, auth_uri self, token_uri self,
      auth_provider_x509_cert_url self, type self]
     @ (case client_x509_cert_url self of None \<Rightarrow> [] | Some url \<Rightarrow> [url])"

definition strs :: "str \<times> str option \<Rightarrow> bool" where
  "strs kv = (is_str (fst kv) \<and> (case snd kv of None \<Rightarrow> True | Some s \<Rightarrow> is_str s))"

definition isascii :: "str \<Rightarrow> bool" where
  "isascii s = list_all (\<lambda>c. c < 0x80) s"

definition next_not_low :: "str \<Rightarrow> bool" where
  "next_not_low t =
     ((\<exists>u. decode_uXXXX (drop 2 t) = Some u \<and> \<not> low_surrogate u) \<or> take 2 t \<noteq> [0x5C, 0x75])"

section \<open>Declarations outside these files\<close>

text \<open>
  Modelled from the spec: \<open>AllowDenyPattern\<close> (imported from
  \<^verbatim>\<open>datahub.configuration.common\<close>) is, in the words of the glossary, a pair of regex
  lists used to include and exclude named entities: an allow list and a deny list. It is
  a model object, which Python counts as true in a condition.
\<close>

record AllowDenyPattern =
  allow :: "string list"
  deny :: "string list"

text \<open>
  The base class \<open>PlatformSourceConfigBase\<close> and the value of
  \<^verbatim>\<open>AllowDenyPattern.allow_all()\<close> are declared elsewhere. The validators of
  \<open>BigQueryUsageConfig\<close> name two inherited fields, \<open>platform\<close> and
  \<open>platform_instance\<close>; both are optional strings. Their defaults, and the pattern
  that \<open>allow_all()\<close> returns, are parameters of the model. Fields inherited from
  \<open>BaseUsageConfig\<close> and \<open>BigQueryBaseConfig\<close> are not modelled.
\<close>

record external_decls =
  platform_default :: "string option"
  platform_instance_default :: "string option"
  allow_all :: AllowDenyPattern

section \<open>GCP source config (gcp\_common.py, GCPSourceConfig)\<close>

text \<open>
  The object: the two inherited fields, \<open>credential\<close>, and the private attribute
  \<open>_credentials_path\<close>. The second record holds the constructor arguments.
\<close>

record GCPSourceConfig =
  platform :: "string option"
  platform_instance :: "string option"
  credential :: "GCPServiceAccountKey option"
  credentials_path :: "string option"

record GCPSourceConfig_data =
  arg_platform :: "string option option"
  arg_platform_instance :: "string option option"
  arg_credential :: "GCPServiceAccountKey_data option option"

text \<open>
  The field \<open>credential\<close> is an optional nested model. A \<open>ValidationError\<close> of the
  nested constructor is collected as an error of the field; any other exception of it
  leaves the outer constructor.
\<close>

definition validate_credential ::
  "GCPServiceAccountKey_data option option \<Rightarrow> error + (GCPServiceAccountKey option \<times> string list)" where
  "validate_credential a =
     (case supplied a of
        None \<Rightarrow> Inr (None, [])
      | Some data \<Rightarrow>
          (case GCPServiceAccountKey_init data of
             Inr key \<Rightarrow> Inr (Some key, [])
           | Inl (ValidationError es) \<Rightarrow> Inr (None, [''credential''])
           | Inl e \<Rightarrow> Inl e))"

definition GCPSourceConfig_validate ::
  "external_decls \<Rightarrow> GCPSourceConfig_data \<Rightarrow> error + GCPSourceConfig" where
  "GCPSourceConfig_validate d data =
     (case validate_credential (arg_credential data) of
        Inl e \<Rightarrow> Inl e
      | Inr (cred, errors) \<Rightarrow>
          if errors \<noteq> [] then Inl (ValidationError errors)
          else Inr \<lparr> platform = optional_field (platform_default d) (arg_platform data),
                     platform_instance =
                       optional_field (platform_instance_default d) (arg_platform_instance data),
                     credential = cred,
                     credentials_path = None \<rparr>)"

text \<open>
  The body of \<^verbatim>\<open>GCPSourceConfig.__init__\<close> after \<^verbatim>\<open>super().__init__(**data)\<close> has
  returned the validated object. It is the same for every subclass, so it is stated for
  any extension of the record.
\<close>

definition init_credentials :: "'a GCPSourceConfig_scheme \<Rightarrow> 'a GCPSourceConfig_scheme ex" where
  "init_credentials self w =
     (case credential self of
        None \<Rightarrow> (Inr self, w)
      | Some cred \<Rightarrow>
          (case create_credential_temp_file cred w of
             (Inl e, w1) \<Rightarrow> (Inl e, w1)
           | (Inr path, w1) \<Rightarrow>
               (Inr (self\<lparr>credentials_path := Some path\<rparr>),
                w1\<lparr>log := log w1 @ [(''DEBUG'', ''Creating temporary credential file at '' @ path)],
                   environ := (environ w1)(''GOOGLE_APPLICATION_CREDENTIALS'' \<mapsto> path)\<rparr>)))"

definition GCPSourceConfig_init :: "external_decls \<Rightarrow> GCPSourceConfig_data \<Rightarrow> GCPSourceConfig ex" where
  "GCPSourceConfig_init d data w =
     (case GCPSourceConfig_validate d data of
        Inl e \<Rightarrow> (Inl e, w)
      | Inr self \<Rightarrow> init_credentials self w)"

section \<open>BigQuery usage config (bigquery\_usage.py, BigQueryUsageConfig)\<close>

text \<open>
  The object extends \<open>GCPSourceConfig\<close> by the fields the class declares, in their
  order. \<open>projects\<close> is a list of strings, but the validator of \<open>project_id\<close>
  can leave \<open>None\<close> in it, so its elements are optional.
  \<open>extra_client_options\<close> is a dict of options (an association list);
  \<open>max_query_duration\<close> is a \<open>timedelta\<close>, held as its number of seconds, and
  its argument is a number of seconds. The accessors test
  \<^verbatim>\<open>self.table_pattern\<close> for truth, so the attribute is an option: \<open>None\<close> stands
  for an object whose attribute holds \<open>None\<close>.
\<close>

record BigQueryUsageConfig = GCPSourceConfig +
  projects :: "string option list option"
  project_id :: "string option"
  extra_client_options :: "(string \<times> string) list"
  use_v2_audit_metadata :: "bool option"
  bigquery_audit_metadata_datasets :: "string list option"
  use_exported_bigquery_audit_metadata :: bool
  use_date_sharded_audit_log_tables :: bool
  table_pattern :: "AllowDenyPattern option"
  dataset_pattern :: AllowDenyPattern
  log_page_size :: int
  query_log_delay :: "int option"
  max_query_duration :: int
  temp_table_dataset_prefix :: string

record BigQueryUsageConfig_data = GCPSourceConfig_data +
  arg_projects :: "string list option option"
  arg_project_id :: "string option option"
  arg_extra_client_options :: "(string \<times> string) list option"
  arg_use_v2_audit_metadata :: "bool option option"
  arg_bigquery_audit_metadata_datasets :: "string list option option"
  arg_use_exported_bigquery_audit_metadata :: "bool option"
  arg_use_date_sharded_audit_log_tables :: "bool option"
  arg_table_pattern :: "AllowDenyPattern option"
  arg_dataset_pattern :: "AllowDenyPattern option"
  arg_log_page_size :: "int option"
  arg_query_log_delay :: "int option option"
  arg_max_query_duration :: "int option"
  arg_temp_table_dataset_prefix :: "string option"

subsection \<open>The validators of the class\<close>

text \<open>
  Each validator receives the supplied value \<open>v\<close>, which is \<open>None\<close> when \<open>None\<close>
  was supplied, and, where it asks for it, the dict \<open>values\<close> of the fields validated
  before its own; it returns the value to store or raises.
  \<open>note_project_id_deprecation\<close> also writes to \<open>values\<close> and to the log.

  None of them is called on the default of an omitted field:
  \<open>bigquery_platform_instance_is_meaningless\<close> raises on every call, so no object could
  be constructed if it were.
\<close>

definition note_project_id_deprecation ::
  "string option \<Rightarrow> BigQueryUsageConfig \<Rightarrow> world \<Rightarrow> (string option \<times> BigQueryUsageConfig) \<times> world" where
  "note_project_id_deprecation v values w =
     ((None, values\<lparr>projects := Some [v]\<rparr>),
      w\<lparr>log := log w @
         [(''WARNING'', ''bigquery-usage project_id option is deprecated; use projects instead'')]\<rparr>)"

definition platform_is_always_bigquery :: "string option \<Rightarrow> string" where
  "platform_is_always_bigquery v = ''bigquery''"

definition bigquery_platform_instance_is_meaningless :: "string option \<Rightarrow> error + string option" where
  "bigquery_platform_instance_is_meaningless v =
     Inl (ConfigurationError
       ''BigQuery project-ids are globally unique. You don't need to provide a platform_instance'')"

text \<open>Python's \<^verbatim>\<open>not x\<close> for an optional boolean: \<open>None\<close> counts as false.\<close>

definition py_not :: "bool option \<Rightarrow> bool" where
  "py_not b = (case b of None \<Rightarrow> True | Some x \<Rightarrow> \<not> x)"

text \<open>
  \<^verbatim>\<open>values["use_v2_audit_metadata"]\<close> is always present: the field precedes this one
  and cannot fail on an argument of its type.
\<close>

definition use_exported_bigquery_audit_metadata_uses_v2 ::
  "bool \<Rightarrow> BigQueryUsageConfig \<Rightarrow> error + bool" where
  "use_exported_bigquery_audit_metadata_uses_v2 v values =
     (if v = True \<and> py_not (use_v2_audit_metadata values) then
        Inl (ConfigurationError
          ''To use exported BigQuery audit metadata, you must also use v2 audit metadata'')
      else Inr v)"

subsection \<open>The accessors\<close>

text \<open>Python's \<^verbatim>\<open>sep.join(xs)\<close>.\<close>

fun join :: "string \<Rightarrow> string list \<Rightarrow> string" where
  "join sep [] = []"
| "join sep [x] = x"
| "join sep (x # y # ys) = x @ sep @ join sep (y # ys)"

definition get_allow_pattern_string :: "BigQueryUsageConfig \<Rightarrow> string" where
  "get_allow_pattern_string self =
     (case table_pattern self of Some p \<Rightarrow> join ''|'' (allow p) | None \<Rightarrow> [])"

definition get_deny_pattern_string :: "BigQueryUsageConfig \<Rightarrow> string" where
  "get_deny_pattern_string self =
     (case table_pattern self of Some p \<Rightarrow> join ''|'' (deny p) | None \<Rightarrow> [])"

subsection \<open>Construction\<close>

text \<open>
  One step per field, in pydantic's order: the inherited fields, then the fields of the
  class as declared. A step takes the pair of \<open>values\<close> and the errors collected so
  far. A field that takes a value or its default writes it to \<open>values\<close>; a field that
  fails with a collected error leaves \<open>values\<close> without it; a step that raises an
  exception which pydantic does not collect ends the construction.
\<close>

type_synonym vstate = "BigQueryUsageConfig \<times> string list"

definition field_platform :: "external_decls \<Rightarrow> BigQueryUsageConfig_data \<Rightarrow> vstate \<Rightarrow> vstate ex" where
  "field_platform d data s =
     (case arg_platform data of
        None \<Rightarrow> returns ((fst s)\<lparr>platform := platform_default d\<rparr>, snd s)
      | Some v \<Rightarrow> returns ((fst s)\<lparr>platform := Some (platform_is_always_bigquery v)\<rparr>, snd s))"

definition field_platform_instance :: "external_decls \<Rightarrow> BigQueryUsageConfig_data \<Rightarrow> vstate \<Rightarrow> vstate ex" where
  "field_platform_instance d data s =
     (case arg_platform_instance data of
        None \<Rightarrow> returns ((fst s)\<lparr>platform_instance := platform_instance_default d\<rparr>, snd s)
      | Some v \<Rightarrow>
          (case bigquery_platform_instance_is_meaningless v of
             Inl e \<Rightarrow> raises e
           | Inr r \<Rightarrow> returns ((fst s)\<lparr>platform_instance := r\<rparr>, snd s)))"

definition field_credential :: "BigQueryUsageConfig_data \<Rightarrow> vstate \<Rightarrow> vstate ex" where
  "field_credential data s =
     (case validate_credential (arg_credential data) of
        Inl e \<Rightarrow> raises e
      | Inr (cred, es) \<Rightarrow> returns ((fst s)\<lparr>credential := cred\<rparr>, snd s @ es))"

definition field_projects :: "BigQueryUsageConfig_data \<Rightarrow> vstate \<Rightarrow> vstate ex" where
  "field_projects data s =
     returns ((fst s)\<lparr>projects := map_option (map Some) (optional_field None (arg_projects data))\<rparr>,
              snd s)"

definition field_project_id :: "BigQueryUsageConfig_data \<Rightarrow> vstate \<Rightarrow> vstate ex" where
  "field_project_id data s =
     (case arg_project_id data of
        None \<Rightarrow> returns ((fst s)\<lparr>project_id := None\<rparr>, snd s)
      | Some v \<Rightarrow>
          (\<lambda>w. case note_project_id_deprecation v (fst s) w of
                 ((r, values), w1) \<Rightarrow> (Inr (values\<lparr>project_id := r\<rparr>, snd s), w1)))"

definition field_extra_client_options :: "BigQueryUsageConfig_data \<Rightarrow> vstate \<Rightarrow> vstate ex" where
  "field_extra_client_options data s =
     returns ((fst s)\<lparr>extra_client_options := default_field [] (arg_extra_client_options data)\<rparr>, snd s)"

definition field_use_v2_audit_metadata :: "BigQueryUsageConfig_data \<Rightarrow> vstate \<Rightarrow> vstate ex" where
  "field_use_v2_audit_metadata data s =
     returns ((fst s)\<lparr>use_v2_audit_metadata :=
                optional_field (Some False) (arg_use_v2_audit_metadata data)\<rparr>, snd s)"

definition field_bigquery_audit_metadata_datasets :: "BigQueryUsageConfig_data \<Rightarrow> vstate \<Rightarrow> vstate ex" where
  "field_bigquery_audit_metadata_datasets data s =
     returns ((fst s)\<lparr>bigquery_audit_metadata_datasets :=
                optional_field None (arg_bigquery_audit_metadata_datasets data)\<rparr>, snd s)"

definition field_use_exported_bigquery_audit_metadata :: "BigQueryUsageConfig_data \<Rightarrow> vstate \<Rightarrow> vstate ex" where
  "field_use_exported_bigquery_audit_metadata data s =
     (case arg_use_exported_bigquery_audit_metadata data of
        None \<Rightarrow> returns ((fst s)\<lparr>use_exported_bigquery_audit_metadata := False\<rparr>, snd s)
      | Some v \<Rightarrow>
          (case use_exported_bigquery_audit_metadata_uses_v2 v (fst s) of
             Inl e \<Rightarrow> raises e
           | Inr r \<Rightarrow> returns ((fst s)\<lparr>use_exported_bigquery_audit_metadata := r\<rparr>, snd s)))"

definition field_use_date_sharded_audit_log_tables :: "BigQueryUsageConfig_data \<Rightarrow> vstate \<Rightarrow> vstate ex" where
  "field_use_date_sharded_audit_log_tables data s =
     returns ((fst s)\<lparr>use_date_sharded_audit_log_tables :=
                default_field False (arg_use_date_sharded_audit_log_tables data)\<rparr>, snd s)"

definition field_table_pattern :: "external_decls \<Rightarrow> BigQueryUsageConfig_data \<Rightarrow> vstate \<Rightarrow> vstate ex" where
  "field_table_pattern d data s =
     returns ((fst s)\<lparr>table_pattern := Some (default_field (allow_all d) (arg_table_pattern data))\<rparr>, snd s)"

definition field_dataset_pattern :: "external_decls \<Rightarrow> BigQueryUsageConfig_data \<Rightarrow> vstate \<Rightarrow> vstate ex" where
  "field_dataset_pattern d data s =
     returns ((fst s)\<lparr>dataset_pattern := default_field (allow_all d) (arg_dataset_pattern data)\<rparr>, snd s)"

definition field_log_page_size :: "BigQueryUsageConfig_data \<Rightarrow> vstate \<Rightarrow> vstate ex" where
  "field_log_page_size data s =
     (case arg_log_page_size data of
        None \<Rightarrow> returns ((fst s)\<lparr>log_page_size := 1000\<rparr>, snd s)
      | Some n \<Rightarrow>
          if 0 < n then returns ((fst s)\<lparr>log_page_size := n\<rparr>, snd s)
          else returns (fst s, snd s @ [''log_page_size'']))"

definition field_query_log_delay :: "BigQueryUsageConfig_data \<Rightarrow> vstate \<Rightarrow> vstate ex" where
  "field_query_log_delay data s =
     (case supplied (arg_query_log_delay data) of
        None \<Rightarrow> returns ((fst s)\<lparr>query_log_delay := None\<rparr>, snd s)
      | Some n \<Rightarrow>
          if 0 < n then returns ((fst s)\<lparr>query_log_delay := Some n\<rparr>, snd s)
          else returns (fst s, snd s @ [''query_log_delay'']))"

text \<open>
  pydantic reads an int given for a \<open>timedelta\<close> field as a number of seconds and
  builds \<^verbatim>\<open>timedelta(seconds=n)\<close>. A \<open>timedelta\<close> holds at most 999999999 days
  in either direction; beyond that its constructor raises \<open>OverflowError\<close>, which
  pydantic does not collect. The default is \<^verbatim>\<open>timedelta(minutes=15)\<close>.
\<close>

definition timedelta :: "int \<Rightarrow> error + int" where
  "timedelta seconds =
     (if abs (seconds div 86400) > 999999999 then Inl OverflowError else Inr seconds)"

definition field_max_query_duration :: "BigQueryUsageConfig_data \<Rightarrow> vstate \<Rightarrow> vstate ex" where
  "field_max_query_duration data s =
     (case arg_max_query_duration data of
        None \<Rightarrow> returns ((fst s)\<lparr>max_query_duration := 15 * 60\<rparr>, snd s)
      | Some n \<Rightarrow>
          (case timedelta n of
             Inl e \<Rightarrow> raises e
           | Inr t \<Rightarrow> returns ((fst s)\<lparr>max_query_duration := t\<rparr>, snd s)))"

definition field_temp_table_dataset_prefix :: "BigQueryUsageConfig_data \<Rightarrow> vstate \<Rightarrow> vstate ex" where
  "field_temp_table_dataset_prefix data s =
     returns ((fst s)\<lparr>temp_table_dataset_prefix :=
                default_field ''_'' (arg_temp_table_dataset_prefix data)\<rparr>, snd s)"

definition BigQueryUsageConfig_fields ::
  "external_decls \<Rightarrow> BigQueryUsageConfig_data \<Rightarrow> (vstate \<Rightarrow> vstate ex) list" where
  "BigQueryUsageConfig_fields d data =
     [field_platform d data,
      field_platform_instance d data,
      field_credential data,
      field_projects data,
      field_project_id data,
      field_extra_client_options data,
      field_use_v2_audit_metadata data,
      field_bigquery_audit_metadata_datasets data,
      field_use_exported_bigquery_audit_metadata data,
      field_use_date_sharded_audit_log_tables data,
      field_table_pattern d data,
      field_dataset_pattern d data,
      field_log_page_size data,
      field_query_log_delay data,
      field_max_query_duration data,
      field_temp_table_dataset_prefix data]"

text \<open>
  pydantic's \<^verbatim>\<open>validate_model\<close>: the steps in order, each on the state the one
  before left.
\<close>

fun validate_model :: "('s \<Rightarrow> 's ex) list \<Rightarrow> 's \<Rightarrow> 's ex" where
  "validate_model [] s = returns s"
| "validate_model (f # fs) s = and_then (f s) (validate_model fs)"

text \<open>
  Before the first step \<open>values\<close> is empty. Every field below is a placeholder until
  its step writes it; a step that does not write records an error, and then no object
  is built.
\<close>

definition no_values :: BigQueryUsageConfig where
  "no_values =
     \<lparr> platform = None, platform_instance = None, credential = None, credentials_path = None,
       projects = None, project_id = None, extra_client_options = [],
       use_v2_audit_metadata = None, bigquery_audit_metadata_datasets = None,
       use_exported_bigquery_audit_metadata = False, use_date_sharded_audit_log_tables = False,
       table_pattern = None, dataset_pattern = \<lparr>allow = [], deny = []\<rparr>,
       log_page_size = 0, query_log_delay = None, max_query_duration = 0,
       temp_table_dataset_prefix = [] \<rparr>"

definition BigQueryUsageConfig_validate ::
  "external_decls \<Rightarrow> BigQueryUsageConfig_data \<Rightarrow> BigQueryUsageConfig ex" where
  "BigQueryUsageConfig_validate d data =
     and_then (validate_model (BigQueryUsageConfig_fields d data) (no_values, []))
       (\<lambda>s. if snd s \<noteq> [] then raises (ValidationError (snd s)) else returns (fst s))"

text \<open>
  \<^verbatim>\<open>BigQueryUsageConfig.__init__\<close> only calls \<^verbatim>\<open>super().__init__(**data)\<close>, which
  is \<^verbatim>\<open>GCPSourceConfig.__init__\<close>: validation, then the credential file.
\<close>

definition BigQueryUsageConfig_init ::
  "external_decls \<Rightarrow> BigQueryUsageConfig_data \<Rightarrow> BigQueryUsageConfig ex" where
  "BigQueryUsageConfig_init d data =
     and_then (BigQueryUsageConfig_validate d data) init_credentials"

section \<open>Closed form of the BigQuery validation\<close>

text \<open>
  What the sixteen steps compute, written out; the lemmas below prove that the steps
  agree with it. \<open>deprecation_logged\<close> is the state after the \<open>project_id\<close> step,
  \<open>exported_conflict\<close> the condition under which the audit-metadata validator raises,
  \<open>duration_overflow\<close> the condition under which the duration step raises,
  \<open>size_errors\<close> the errors collected from the two positive-integer fields, and
  \<open>validated_values\<close> the dict \<open>values\<close> when no step failed, given the validated
  credential.
\<close>

definition deprecation_logged :: "BigQueryUsageConfig_data \<Rightarrow> world \<Rightarrow> world" where
  "deprecation_logged data w =
     (case arg_project_id data of
        None \<Rightarrow> w
      | Some v \<Rightarrow>
          w\<lparr>log := log w @
            [(''WARNING'', ''bigquery-usage project_id option is deprecated; use projects instead'')]\<rparr>)"

definition exported_conflict :: "BigQueryUsageConfig_data \<Rightarrow> bool" where
  "exported_conflict data =
     (arg_use_exported_bigquery_audit_metadata data = Some True
      \<and> py_not (optional_field (Some False) (arg_use_v2_audit_metadata data)))"

definition duration_overflow :: "BigQueryUsageConfig_data \<Rightarrow> bool" where
  "duration_overflow data =
     (case arg_max_query_duration data of
        None \<Rightarrow> False
      | Some n \<Rightarrow> abs (n div 86400) > 999999999)"

definition size_errors :: "BigQueryUsageConfig_data \<Rightarrow> string list" where
  "size_errors data =
     (case arg_log_page_size data of
        None \<Rightarrow> []
      | Some n \<Rightarrow> if 0 < n then [] else [''log_page_size''])
     @ (case supplied (arg_query_log_delay data) of
          None \<Rightarrow> []
        | Some n \<Rightarrow> if 0 < n then [] else [''query_log_delay''])"

definition validated_values ::
  "external_decls \<Rightarrow> BigQueryUsageConfig_data \<Rightarrow> GCPServiceAccountKey option \<Rightarrow> BigQueryUsageConfig" where
  "validated_values d data cred =
     \<lparr> platform =
         (case arg_platform data of
            None \<Rightarrow> platform_default d
          | Some v \<Rightarrow> Some ''bigquery''),
       platform_instance = platform_instance_default d,
       credential = cred,
       credentials_path = None,
       projects =
         (case arg_project_id data of
            None \<Rightarrow> map_option (map Some) (optional_field None (arg_projects data))
          | Some v \<Rightarrow> Some [v]),
       project_id = None,
       extra_client_options = default_field [] (arg_extra_client_options data),
       use_v2_audit_metadata = optional_field (Some False) (arg_use_v2_audit_metadata data),
       bigquery_audit_metadata_datasets =
         optional_field None (arg_bigquery_audit_metadata_datasets data),
       use_exported_bigquery_audit_metadata =
         default_field False (arg_use_exported_bigquery_audit_metadata data),
       use_date_sharded_audit_log_tables =
         default_field False (arg_use_date_sharded_audit_log_tables data),
       table_pattern = Some (default_field (allow_all d) (arg_table_pattern data)),
       dataset_pattern = default_field (allow_all d) (arg_dataset_pattern data),
       log_page_size = default_field 1000 (arg_log_page_size data),
       query_log_delay = supplied (arg_query_log_delay data),
       max_query_duration = default_field (15 * 60) (arg_max_query_duration data),
       temp_table_dataset_prefix = default_field ''_'' (arg_temp_table_dataset_prefix data) \<rparr>"

text \<open>
  The rules of construction other than the one on the audit-metadata flags: no
  \<open>platform_instance\<close>, a credential that validates (if one is given) and a free name
  for its file, positive sizes, and a duration of at most 999999999 days in either
  direction.
\<close>

definition other_rules_permit :: "BigQueryUsageConfig_data \<Rightarrow> world \<Rightarrow> bool" where
  "other_rules_permit data w =
     (arg_platform_instance data = None
      \<and> (case validate_credential (arg_credential data) of
           Inl e \<Rightarrow> False
         | Inr (cred, es) \<Rightarrow>
             es = [] \<and> (cred = None \<or> (\<exists>name \<in> set (tmp_names w). files w name = None)))
      \<and> (case arg_log_page_size data of None \<Rightarrow> True | Some n \<Rightarrow> 0 < n)
      \<and> (case supplied (arg_query_log_delay data) of None \<Rightarrow> True | Some n \<Rightarrow> 0 < n)
      \<and> (case arg_max_query_duration data of
           None \<Rightarrow> True
         | Some n \<Rightarrow> abs (n div 86400) \<le> 999999999))"

section \<open>Example inputs\<close>

text \<open>
  A service account key as a caller passes it and the object built from it, a process
  state with one free temporary name, and constructor arguments that supply nothing.
\<close>

definition example_key_data :: GCPServiceAccountKey_data where
  "example_key_data =
     \<lparr> GCPServiceAccountKey_fields.project_id = Some (lit ''proj''),
       private_key_id = Some (lit ''kid''), private_key = Some (lit ''secret''),
       client_email = Some (lit ''svc@proj.iam.gserviceaccount.com''),
       client_id = Some (lit ''42''),
       auth_uri = None, token_uri = None, auth_provider_x509_cert_url = None, type = None,
       client_x509_cert_url = None \<rparr>"

definition example_key :: GCPServiceAccountKey where
  "example_key =
     \<lparr> GCPServiceAccountKey_fields.project_id = lit ''proj'', private_key_id = lit ''kid'',
       private_key = lit ''secret'',
       client_email = lit ''svc@proj.iam.gserviceaccount.com'', client_id = lit ''42'',
       auth_uri = lit ''https://accounts.google.com/o/oauth2/auth'',
       token_uri = lit ''https://oauth2.googleapis.com/token'',
       auth_provider_x509_cert_url = lit ''https://www.googleapis.com/oauth2/v1/certs'',
       type = lit ''service_account'',
       client_x509_cert_url =
         Some (lit ''https://www.googleapis.com/robot/v1/metadata/x509/svc@proj.iam.gserviceaccount.com'') \<rparr>"

definition example_world :: world where
  "example_world =
     \<lparr> environ = Map.empty, files = Map.empty, tmp_names = [''/tmp/tmpk3x9q2ab''], log = [] \<rparr>"

definition example_source_args :: GCPSourceConfig_data where
  "example_source_args =
     \<lparr> arg_platform = None, arg_platform_instance = None,
       arg_credential = Some (Some example_key_data) \<rparr>"

definition no_args :: BigQueryUsageConfig_data where
  "no_args =
     \<lparr> arg_platform = None, arg_platform_instance = None, arg_credential = None,
       arg_projects = None, arg_project_id = None, arg_extra_client_options = None,
       arg_use_v2_audit_metadata = None, arg_bigquery_audit_metadata_datasets = None,
       arg_use_exported_bigquery_audit_metadata = None,
       arg_use_date_sharded_audit_log_tables = None,
       arg_table_pattern = None, arg_dataset_pattern = None, arg_log_page_size = None,
       arg_query_log_delay = None, arg_max_query_duration = None,
       arg_temp_table_dataset_prefix = None \<rparr>"

text \<open>
  One choice of the outside declarations, that of the datahub code base:
  \<^verbatim>\<open>platform: Optional[str] = None\<close>, \<^verbatim>\<open>platform_instance: Optional[str] = None\<close>, and
  \<^verbatim>\<open>allow_all()\<close> the pattern that allows every name: allow list \<^verbatim>\<open>[".*"]\<close>, empty
  deny list.
\<close>

definition upstream_decls :: external_decls where
  "upstream_decls =
     \<lparr> platform_default = None, platform_instance_default = None,
       allow_all = \<lparr>allow = [''.*''], deny = []\<rparr> \<rparr>"

section \<open>Properties of the URI helper\<close>

lemma startswith_iff_append: "startswith s p = (\<exists>rest. s = p @ rest)"
proof
  assume "startswith s p"
  then have "s = p @ drop (length p) s"
    unfolding startswith_def by (metis append_take_drop_id)
  then show "\<exists>rest. s = p @ rest" ..
next
  assume "\<exists>rest. s = p @ rest"
  then show "startswith s p"
    unfolding startswith_def by auto
qed

text \<open>
  Claim C9. \<open>is_gcs_uri\<close> is a total boolean function of the string alone; it is true
  exactly for the strings that begin with the five characters \<open>gs://\<close>. In particular
  it is true of \<open>gs://bucket/obj\<close> and false of \<open>s3://bucket/obj\<close> and of the
  empty string.
\<close>

theorem is_gcs_uri_iff_prefix:
  "is_gcs_uri uri = (\<exists>rest. uri = ''gs://'' @ rest)
   \<and> is_gcs_uri ''gs://bucket/obj''
   \<and> \<not> is_gcs_uri ''s3://bucket/obj''
   \<and> \<not> is_gcs_uri ''''"
proof -
  have "is_gcs_uri uri = (\<exists>rest. uri = ''gs://'' @ rest)"
    unfolding is_gcs_uri_def GCS_PREFIX_def by (rule startswith_iff_append)
  moreover have "is_gcs_uri ''gs://bucket/obj''"
    by (simp add: is_gcs_uri_def GCS_PREFIX_def startswith_def)
  moreover have "\<not> is_gcs_uri ''s3://bucket/obj''"
    by (simp add: is_gcs_uri_def GCS_PREFIX_def startswith_def)
  moreover have "\<not> is_gcs_uri ''''"
    by (simp add: is_gcs_uri_def GCS_PREFIX_def startswith_def)
  ultimately show ?thesis by blast
qed

section \<open>Properties of the JSON text\<close>

text \<open>
  Reading back what the encoder wrote of a dict of Python strings gives the dict with the
  split surrogate pairs joined. The proof follows the encoder: the digits of an escape,
  one character, one string, one item, the whole object.
\<close>

lemma unhex_hexdigit: "n < 16 \<Longrightarrow> unhex (hexdigit n) = Some n"
  by (simp add: unhex_def hexdigit_def)

lemma hex_digits:
  fixes n :: nat
  assumes "n < 65536"
  shows "4096 * (n div 4096 mod 16) + 256 * (n div 256 mod 16) + 16 * (n div 16 mod 16) + n mod 16 = n"
proof -
  have top: "n div 4096 < 16" using assms by (simp add: less_mult_imp_div_less)
  have a: "16 * (n div 16) + n mod 16 = n" by (rule mult_div_mod_eq)
  have b: "16 * (n div 16 div 16) + n div 16 mod 16 = n div 16" by (rule mult_div_mod_eq)
  have c: "16 * (n div 256 div 16) + n div 256 mod 16 = n div 256" by (rule mult_div_mod_eq)
  have d: "n div 16 div 16 = n div 256" "n div 256 div 16 = n div 4096"
    by (simp_all add: div_mult2_eq [symmetric])
  from top have e: "n div 4096 mod 16 = n div 4096" by simp
  from a b c show ?thesis unfolding d e by linarith
qed

lemma decode_u_escape:
  assumes "n < 65536"
  shows "decode_uXXXX (hexdigit (n div 4096 mod 16) # hexdigit (n div 256 mod 16)
           # hexdigit (n div 16 mod 16) # hexdigit (n mod 16) # t) = Some n"
  by (simp add: decode_uXXXX_def unhex_hexdigit hex_digits [OF assms])

lemma or_low_bits:
  fixes x y :: nat
  assumes "y < 2 ^ k"
  shows "push_bit k x OR y = push_bit k x + y"
proof -
  from assms have y: "take_bit k y = y" by (simp add: take_bit_nat_eq_self)
  have "push_bit k x AND take_bit k y = 0"
    by (rule bit_eqI) (auto simp: bit_and_iff bit_push_bit_iff bit_take_bit_iff)
  then have "push_bit k x AND y = 0" by (simp only: y)
  then show ?thesis by (simp add: disjunctive_add_eq_or)
qed

lemma and_3ff: "(n::nat) AND 0x3ff = n mod 1024"
proof -
  have "(0x3ff::nat) = mask 10" by (simp add: mask_eq_exp_minus_1)
  then have "n AND 0x3ff = take_bit 10 n" by (simp only: take_bit_eq_mask)
  then show ?thesis by (simp add: take_bit_eq_mod)
qed

lemma or_d800: "x < 1024 \<Longrightarrow> (0xd800::nat) OR x = 0xd800 + x"
  using or_low_bits [of x 10 54] by (simp add: push_bit_eq_mult)

lemma or_dc00: "x < 1024 \<Longrightarrow> (0xdc00::nat) OR x = 0xdc00 + x"
  using or_low_bits [of x 10 55] by (simp add: push_bit_eq_mult)

lemma join_bits: "y < 1024 \<Longrightarrow> push_bit 10 x OR y = x * 1024 + (y::nat)"
  using or_low_bits [of y 10 x] by (simp add: push_bit_eq_mult)

lemma replace_astral:
  assumes "0x10000 \<le> c" "c < 0x110000"
  shows "replace c = u_escape (0xd800 + (c - 0x10000) div 1024)
                    @ u_escape (0xdc00 + (c - 0x10000) mod 1024)"
proof -
  have none: "ESCAPE_DCT c = None" using assms by (simp add: ESCAPE_DCT_def)
  have hi: "(c - 0x10000) div 1024 < 1024" using assms by (simp add: less_mult_imp_div_less)
  then have hi': "(c - 0x10000) div 1024 mod 1024 = (c - 0x10000) div 1024" by simp
  have lo: "(c - 0x10000) mod 1024 < 1024" by simp
  show ?thesis
    using assms or_d800 [OF hi] or_dc00 [OF lo]
    by (simp add: replace_def none Let_def and_3ff drop_bit_eq_div hi')
qed

lemma scan_quote: "scanstring (0x22 # t) = Some ([], t)"
  by (simp add: scanstring.simps)

lemma scan_plain:
  "c \<noteq> 0x22 \<Longrightarrow> c \<noteq> 0x5C \<Longrightarrow> 0x20 \<le> c \<Longrightarrow>
   scanstring (c # t) = append_char c (scanstring t)"
  by (simp add: scanstring.simps)

lemma scan_short:
  "esc \<noteq> 0x75 \<Longrightarrow> BACKSLASH esc = Some ch \<Longrightarrow>
   scanstring (0x5C # esc # t) = append_char ch (scanstring t)"
  by (simp add: scanstring.simps)

lemma scan_u_escape:
  assumes "n < 65536"
  shows "scanstring (u_escape n @ t) =
     (if high_surrogate n \<and> take 2 t = [0x5C, 0x75] then
        (case decode_uXXXX (drop 2 t) of
           None \<Rightarrow> None
         | Some uni2 \<Rightarrow>
             if low_surrogate uni2 then
               append_char (0x10000 + (push_bit 10 (n - 0xd800) OR (uni2 - 0xdc00)))
                 (scanstring (drop 6 t))
             else append_char n (scanstring t))
      else append_char n (scanstring t))"
  unfolding u_escape_def
  by (simp add: scanstring.simps(2) decode_u_escape [OF assms]
      high_surrogate_def low_surrogate_def cong: option.case_cong if_cong)

lemma take2_u_escape: "take 2 (u_escape n @ t) = [0x5C, 0x75]"
  by (simp add: u_escape_def)

lemma drop2_u_escape:
  "drop 2 (u_escape n @ t) = hexdigit (n div 4096 mod 16) # hexdigit (n div 256 mod 16)
           # hexdigit (n div 16 mod 16) # hexdigit (n mod 16) # t"
  by (simp add: u_escape_def)

lemma decode_drop2_u_escape:
  "n < 65536 \<Longrightarrow> decode_uXXXX (drop 2 (u_escape n @ t)) = Some n"
  unfolding drop2_u_escape by (rule decode_u_escape)

lemma drop6_u_escape: "drop 6 (u_escape n @ t) = t"
  by (simp add: u_escape_def)

lemma scan_u_escape_alone:
  assumes "n < 65536" and "high_surrogate n \<Longrightarrow> next_not_low t"
  shows "scanstring (u_escape n @ t) = append_char n (scanstring t)"
  using assms(2) unfolding scan_u_escape [OF assms(1)] next_not_low_def
  by auto

lemma scan_u_escape_pair:
  assumes "high_surrogate a" "low_surrogate b"
  shows "scanstring (u_escape a @ u_escape b @ t) =
           append_char (0x10000 + (a - 0xd800) * 1024 + (b - 0xdc00)) (scanstring t)"
proof -
  have a: "a < 65536" and b: "b < 65536" and lo: "b - 0xdc00 < 1024"
    using assms by (auto simp: high_surrogate_def low_surrogate_def)
  show ?thesis
    unfolding scan_u_escape [OF a]
    using assms
    by (simp add: take2_u_escape decode_drop2_u_escape [OF b] drop6_u_escape
        join_bits [OF lo] add.assoc del: take_append drop_append)
qed

lemma scan_replace:
  assumes "c < 0x110000" and "ESCAPE_ASCII c" and "high_surrogate c \<Longrightarrow> next_not_low t"
  shows "scanstring (replace c @ t) = append_char c (scanstring t)"
proof (cases "c < 0x10000")
  case small: True
  show ?thesis
  proof (cases "ESCAPE_DCT c")
    case None
    then have "replace c = u_escape c" using small by (simp add: replace_def)
    then show ?thesis using scan_u_escape_alone [OF _ assms(3)] small by simp
  next
    case (Some e)
    then show ?thesis
      by (auto simp: replace_def ESCAPE_DCT_def BACKSLASH_def scan_short split: if_splits)
  qed
next
  case False
  then have big: "0x10000 \<le> c" by simp
  let ?n = "c - 0x10000"
  have hi: "?n div 1024 < 1024" using assms(1) by (simp add: less_mult_imp_div_less)
  have s1: "high_surrogate (0xd800 + ?n div 1024)"
    using hi by (simp add: high_surrogate_def)
  have s2: "low_surrogate (0xdc00 + ?n mod 1024)"
    by (simp add: low_surrogate_def)
  have same: "0x10000 + (0xd800 + ?n div 1024 - 0xd800) * 1024 + (0xdc00 + ?n mod 1024 - 0xdc00) = c"
    using big by simp
  show ?thesis
    unfolding replace_astral [OF big assms(1)] append_assoc scan_u_escape_pair [OF s1 s2] same
    by (rule refl)
qed

lemma scan_char:
  assumes "c < 0x110000" and "high_surrogate c \<Longrightarrow> next_not_low t"
  shows "scanstring ((if ESCAPE_ASCII c then replace c else [c]) @ t) = append_char c (scanstring t)"
proof (cases "ESCAPE_ASCII c")
  case True
  then show ?thesis using scan_replace [OF assms(1) True assms(2)] by simp
next
  case False
  then show ?thesis by (simp add: ESCAPE_ASCII_def scan_plain)
qed

lemma encode_chars_Nil: "encode_chars [] = []"
  by (simp add: encode_chars_def)

lemma encode_chars_Cons:
  "encode_chars (c # s) = (if ESCAPE_ASCII c then replace c else [c]) @ encode_chars s"
  by (simp add: encode_chars_def)

lemma next_not_low_quote: "next_not_low (0x22 # t)"
  by (simp add: next_not_low_def)

lemma next_not_low_char:
  assumes "c < 0x110000" "\<not> low_surrogate c"
  shows "next_not_low ((if ESCAPE_ASCII c then replace c else [c]) @ t)"
proof (cases "ESCAPE_ASCII c")
  case False
  then show ?thesis by (simp add: next_not_low_def ESCAPE_ASCII_def)
next
  case esc: True
  show ?thesis
  proof (cases "c < 0x10000")
    case small: True
    show ?thesis
    proof (cases "ESCAPE_DCT c")
      case None
      then have "replace c = u_escape c" using small by (simp add: replace_def)
      then show ?thesis
        using small assms(2) esc
        by (simp add: next_not_low_def decode_drop2_u_escape del: take_append drop_append)
    next
      case (Some e)
      then show ?thesis
        using esc by (auto simp: next_not_low_def replace_def ESCAPE_DCT_def split: if_splits)
    qed
  next
    case False
    then have big: "0x10000 \<le> c" by simp
    let ?n = "c - 0x10000"
    have hi: "?n div 1024 < 1024" using assms(1) by (simp add: less_mult_imp_div_less)
    then have lt: "0xd800 + ?n div 1024 < 65536" by simp
    have "\<not> low_surrogate (0xd800 + ?n div 1024)"
      using hi by (simp add: low_surrogate_def)
    then show ?thesis
      using esc
      by (simp add: next_not_low_def replace_astral [OF big assms(1)]
          decode_drop2_u_escape [OF lt] del: take_append drop_append)
  qed
qed

lemma scan_encode_chars:
  "is_str s \<Longrightarrow> scanstring (encode_chars s @ 0x22 # rest) = Some (join_surrogates s, rest)"
proof (induction s rule: join_surrogates.induct)
  case (1 a b s)
  from "1.prems" have a: "a < 0x110000" and b: "b < 0x110000" and s: "is_str s" and bs: "is_str (b # s)"
    by (simp_all add: is_str_def)
  show ?case
  proof (cases "high_surrogate a \<and> low_surrogate b")
    case True
    then have ea: "ESCAPE_ASCII a" "ESCAPE_DCT a = None" "a < 0x10000"
      and eb: "ESCAPE_ASCII b" "ESCAPE_DCT b = None" "b < 0x10000"
      by (auto simp: high_surrogate_def low_surrogate_def ESCAPE_ASCII_def ESCAPE_DCT_def)
    have "encode_chars (a # b # s) @ 0x22 # rest
            = u_escape a @ u_escape b @ (encode_chars s @ 0x22 # rest)"
      using ea eb by (simp add: encode_chars_Cons replace_def)
    then show ?thesis
      using True "1.IH"(1) [OF True s]
      by (simp add: scan_u_escape_pair append_char_def)
  next
    case False
    let ?t = "encode_chars (b # s) @ 0x22 # rest"
    have nl: "high_surrogate a \<Longrightarrow> next_not_low ?t"
    proof -
      assume "high_surrogate a"
      with False have "\<not> low_surrogate b" by simp
      from next_not_low_char [OF b this] show ?thesis
        by (simp add: encode_chars_Cons)
    qed
    have "scanstring (encode_chars (a # b # s) @ 0x22 # rest)
            = append_char a (scanstring ?t)"
      using scan_char [OF a nl] by (simp add: encode_chars_Cons [of a])
    moreover have "join_surrogates (a # b # s) = a # join_surrogates (b # s)"
      using False by auto
    ultimately show ?thesis
      using "1.IH"(2) [OF False bs] by (simp add: append_char_def)
  qed
next
  case 3
  show ?case by (simp add: encode_chars_Nil scan_quote)
next
  case (2 a)
  then have a: "a < 0x110000" by (simp add: is_str_def)
  have "scanstring (encode_chars [a] @ 0x22 # rest) = append_char a (scanstring (0x22 # rest))"
    using scan_char [OF a next_not_low_quote] by (simp add: encode_chars_Cons encode_chars_Nil)
  then show ?case by (simp add: scan_quote append_char_def)
qed

lemma join_surrogates_id: "\<not> split_pair s \<Longrightarrow> join_surrogates s = s"
  by (induction s rule: join_surrogates.induct) auto

lemma newline_indent_chars: "newline_indent = [0x0A, 0x20, 0x20, 0x20, 0x20]"
  by (simp add: newline_indent_def eval_nat_numeral)

lemma skip_ws_newline_indent: "skip_ws (newline_indent @ s) = skip_ws s"
  by (simp add: skip_ws_def newline_indent_chars is_ws_def)

lemma scan_once_encode_value:
  "(case v of None \<Rightarrow> True | Some s \<Rightarrow> is_str s) \<Longrightarrow>
   scan_once (encode_value v @ rest) = Some (map_option join_surrogates v, rest)"
  by (cases v)
     (simp_all add: scan_once_def encode_value_def py_encode_basestring_ascii_def
        scan_encode_chars lit_def)

lemma skip_ws_encode_value: "dropWhile is_ws (encode_value v @ rest) = encode_value v @ rest"
  by (cases v) (simp_all add: encode_value_def py_encode_basestring_ascii_def is_ws_def lit_def)

lemma JSONObject_loop_render:
  "length kvs < n \<Longrightarrow> strs (k, v) \<Longrightarrow> list_all strs kvs \<Longrightarrow>
   JSONObject_loop n
     (encode_chars k @ 0x22 # lit '': '' @ encode_value v @ iterencode_rest kvs @ rest)
     = Some (map restored ((k, v) # kvs), rest)"
proof (induction kvs arbitrary: n k v)
  case Nil
  then obtain m where n: "n = Suc m" by (cases n) auto
  from Nil.prems have k: "is_str k" and v: "case v of None \<Rightarrow> True | Some s \<Rightarrow> is_str s"
    by (simp_all add: strs_def)
  show ?case
    unfolding n
    by (simp add: scan_encode_chars [OF k] is_ws_def scan_once_encode_value [OF v]
        skip_ws_encode_value skip_ws_def lit_def restored_def)
next
  case (Cons kv kvs)
  then obtain m where n: "n = Suc m" and m: "length kvs < m" by (cases n) auto
  obtain k' v' where kv: "kv = (k', v')" by (cases kv)
  from Cons.prems have kv': "strs (k', v')" and rest: "list_all strs kvs"
    by (simp_all add: kv)
  from Cons.prems have k: "is_str k" and v: "case v of None \<Rightarrow> True | Some s \<Rightarrow> is_str s"
    by (simp_all add: strs_def)
  have ih: "JSONObject_loop m
      (encode_chars k' @ 0x22 # lit '': '' @ encode_value v' @ iterencode_rest kvs @ rest)
     = Some (map restored ((k', v') # kvs), rest)"
    by (rule Cons.IH [OF m kv' rest])
  show ?case
    unfolding n kv using ih
    by (simp add: scan_encode_chars [OF k] is_ws_def scan_once_encode_value [OF v]
        skip_ws_encode_value skip_ws_def newline_indent_chars encode_item_def
        py_encode_basestring_ascii_def lit_def restored_def)
qed

lemma length_iterencode_rest: "length kvs < length (iterencode_rest kvs)"
  by (induction kvs) (auto simp: lit_def)

lemma json_loads_json_dumps:
  assumes "list_all strs dct"
  shows "json_loads (json_dumps dct) = Some (map restored dct)"
proof (cases dct)
  case Nil
  then show ?thesis
    by (simp add: json_dumps_def json_loads_def JSONObject_def skip_ws_def is_ws_def lit_def)
next
  case (Cons kv kvs)
  obtain k v where kv: "kv = (k, v)" by (cases kv)
  let ?t = "encode_chars k @ 0x22 # lit '': '' @ encode_value v @ iterencode_rest kvs @ []"
  have len: "length kvs < length ?t"
    using length_iterencode_rest [of kvs] by simp
  from assms have s: "strs (k, v)" "list_all strs kvs" by (simp_all add: Cons kv)
  have loop: "JSONObject_loop (length ?t) ?t = Some (map restored ((k, v) # kvs), [])"
    by (rule JSONObject_loop_render [OF len s])
  have obj: "JSONObject (newline_indent @ encode_item kv @ iterencode_rest kvs)
               = Some (map restored dct, [])"
    using loop unfolding JSONObject_def skip_ws_newline_indent
    by (simp add: encode_item_def py_encode_basestring_ascii_def kv Cons skip_ws_def is_ws_def)
  show ?thesis
    using obj by (simp add: json_dumps_def json_loads_def Cons skip_ws_def is_ws_def lit_def)
qed

lemma isascii_append: "isascii (s @ t) = (isascii s \<and> isascii t)"
  by (simp add: isascii_def)

lemma isascii_hexdigit: "n < 16 \<Longrightarrow> hexdigit n < 0x80"
  by (simp add: hexdigit_def)

lemma isascii_u_escape: "isascii (u_escape n)"
  by (simp add: isascii_def u_escape_def isascii_hexdigit)

lemma isascii_replace: "isascii (replace c)"
  by (auto simp: replace_def ESCAPE_DCT_def isascii_append isascii_u_escape Let_def
      split: if_splits)
     (simp_all add: isascii_def)

lemma isascii_encode_chars: "isascii (encode_chars s)"
proof (induction s)
  case Nil
  show ?case by (simp add: encode_chars_Nil isascii_def)
next
  case (Cons c s)
  have "isascii (if ESCAPE_ASCII c then replace c else [c])"
    using isascii_replace [of c] by (auto simp: ESCAPE_ASCII_def isascii_def)
  with Cons show ?case by (simp add: encode_chars_Cons isascii_append)
qed

lemma isascii_string: "isascii (py_encode_basestring_ascii s)"
  using isascii_encode_chars [of s] by (simp add: py_encode_basestring_ascii_def isascii_def)

lemma isascii_item: "isascii (encode_item kv)"
  using isascii_string [of "fst kv"]
  by (cases "snd kv")
     (simp_all add: encode_item_def encode_value_def isascii_append isascii_string,
      simp_all add: isascii_def lit_def)

lemma isascii_newline_indent: "isascii newline_indent"
  by (simp add: newline_indent_chars isascii_def)

lemma isascii_iterencode_rest: "isascii (iterencode_rest kvs)"
  by (induction kvs)
     (simp_all add: isascii_append isascii_item isascii_newline_indent, simp_all add: isascii_def lit_def)

lemma isascii_json_dumps: "isascii (json_dumps dct)"
  by (cases dct)
     (simp_all add: json_dumps_def isascii_append isascii_item isascii_newline_indent
        isascii_iterencode_rest, simp_all add: isascii_def lit_def)

section \<open>Properties of the service account key\<close>

text \<open>
  Claim C5. A mapping is valid when it gives the five required fields; construction
  then succeeds. Whenever construction succeeds, the object's \<open>client_email\<close> is the
  one supplied; if \<open>client_x509_cert_url\<close> was absent or \<open>None\<close>, the object's
  \<open>client_x509_cert_url\<close> is the metadata URL followed by that email; if it was
  supplied, it is kept.
\<close>

theorem client_x509_cert_url_derived:
  "(GCPServiceAccountKey_fields.project_id data \<noteq> None \<and> private_key_id data \<noteq> None
      \<and> private_key data \<noteq> None \<and> client_email data \<noteq> None \<and> client_id data \<noteq> None
     \<longrightarrow> (\<exists>key. GCPServiceAccountKey_init data = Inr key))
   \<and> (\<forall>key. GCPServiceAccountKey_init data = Inr key \<longrightarrow>
          client_email data = Some (client_email key)
        \<and> (supplied (client_x509_cert_url data) = None \<longrightarrow>
             client_x509_cert_url key =
               Some (lit ''https://www.googleapis.com/robot/v1/metadata/x509/'' @ client_email key))
        \<and> (\<forall>url. supplied (client_x509_cert_url data) = Some url \<longrightarrow>
             client_x509_cert_url key = Some url))"
proof (intro conjI impI allI)
  assume "GCPServiceAccountKey_fields.project_id data \<noteq> None \<and> private_key_id data \<noteq> None
      \<and> private_key data \<noteq> None \<and> client_email data \<noteq> None \<and> client_id data \<noteq> None"
  then show "\<exists>key. GCPServiceAccountKey_init data = Inr key"
    by (auto simp: GCPServiceAccountKey_init_def GCPServiceAccountKey_validate_fields_def
        missing_def validate_config_def)
next
  fix key
  assume ok: "GCPServiceAccountKey_init data = Inr key"
  then show "client_email data = Some (client_email key)"
    by (auto simp: GCPServiceAccountKey_init_def GCPServiceAccountKey_validate_fields_def
        validate_config_def split: if_splits option.splits)
next
  fix key
  assume ok: "GCPServiceAccountKey_init data = Inr key"
    and "supplied (client_x509_cert_url data) = None"
  then show "client_x509_cert_url key =
               Some (lit ''https://www.googleapis.com/robot/v1/metadata/x509/'' @ client_email key)"
    by (auto simp: GCPServiceAccountKey_init_def GCPServiceAccountKey_validate_fields_def
        validate_config_def supplied_def optional_field_def split: if_splits option.splits)
next
  fix key url
  assume ok: "GCPServiceAccountKey_init data = Inr key"
    and "supplied (client_x509_cert_url data) = Some url"
  then show "client_x509_cert_url key = Some url"
    by (auto simp: GCPServiceAccountKey_init_def GCPServiceAccountKey_validate_fields_def
        validate_config_def supplied_def optional_field_def split: if_splits option.splits)
qed

text \<open>
  The example key: its certificate URL is derived from its email; and a supplied URL is
  kept.
\<close>

theorem client_x509_cert_url_derived_witness:
  "(\<exists>key. GCPServiceAccountKey_init example_key_data = Inr key
      \<and> client_x509_cert_url key =
          Some (lit ''https://www.googleapis.com/robot/v1/metadata/x509/svc@proj.iam.gserviceaccount.com''))
   \<and> (\<exists>key. GCPServiceAccountKey_init
              (example_key_data\<lparr>client_x509_cert_url := Some (Some (lit ''https://example.org/cert''))\<rparr>)
            = Inr key
      \<and> client_x509_cert_url key = Some (lit ''https://example.org/cert''))"
proof
  have given: "GCPServiceAccountKey_fields.project_id example_key_data \<noteq> None
      \<and> private_key_id example_key_data \<noteq> None \<and> private_key example_key_data \<noteq> None
      \<and> client_email example_key_data \<noteq> None \<and> client_id example_key_data \<noteq> None"
    by (simp add: example_key_data_def)
  have absent: "supplied (client_x509_cert_url example_key_data) = None"
    by (simp add: example_key_data_def supplied_def)
  have email: "client_email example_key_data = Some (lit ''svc@proj.iam.gserviceaccount.com'')"
    by (simp add: example_key_data_def)
  from client_x509_cert_url_derived [of example_key_data] given obtain key where
    key: "GCPServiceAccountKey_init example_key_data = Inr key" by blast
  from client_x509_cert_url_derived [of example_key_data] key absent email
  have "client_x509_cert_url key =
         Some (lit ''https://www.googleapis.com/robot/v1/metadata/x509/'' @ client_email key)"
    and "client_email key = lit ''svc@proj.iam.gserviceaccount.com''"
    by auto
  with key show "\<exists>key. GCPServiceAccountKey_init example_key_data = Inr key
      \<and> client_x509_cert_url key =
          Some (lit ''https://www.googleapis.com/robot/v1/metadata/x509/svc@proj.iam.gserviceaccount.com'')"
    by (simp add: lit_def)
next
  let ?data = "example_key_data\<lparr>client_x509_cert_url := Some (Some (lit ''https://example.org/cert''))\<rparr>"
  have given: "GCPServiceAccountKey_fields.project_id ?data \<noteq> None
      \<and> private_key_id ?data \<noteq> None \<and> private_key ?data \<noteq> None
      \<and> client_email ?data \<noteq> None \<and> client_id ?data \<noteq> None"
    by (simp add: example_key_data_def)
  have kept: "supplied (client_x509_cert_url ?data) = Some (lit ''https://example.org/cert'')"
    by (simp add: supplied_def)
  from client_x509_cert_url_derived [of ?data] given obtain key where
    key: "GCPServiceAccountKey_init ?data = Inr key" by blast
  from client_x509_cert_url_derived [of ?data] key kept
  have "client_x509_cert_url key = Some (lit ''https://example.org/cert'')" by blast
  with key show "\<exists>key. GCPServiceAccountKey_init ?data = Inr key
      \<and> client_x509_cert_url key = Some (lit ''https://example.org/cert'')"
    by blast
qed

subsection \<open>The credential file\<close>

lemma mkstemp_inner_Some:
  "mkstemp_inner fs names = Some (name, rest) \<Longrightarrow> fs name = None \<and> name \<in> set names"
  by (induction names) (auto split: if_splits)

lemma mkstemp_inner_finds:
  "\<exists>name \<in> set names. fs name = None \<Longrightarrow> \<exists>name rest. mkstemp_inner fs names = Some (name, rest)"
  by (induction names) auto

text \<open>
  The JSON text is ASCII, so its bytes are its characters, \<^verbatim>\<open>encode()\<close> does not
  raise, and the bytes read as ASCII are the text.
\<close>

lemma encode_isascii: "isascii s \<Longrightarrow> encode s = Inr (map char_of s)"
  by (induction s) (simp_all add: isascii_def utf8_def)

lemma decode_ascii_bytes: "isascii s \<Longrightarrow> decode_ascii (map char_of s) = Some s"
proof -
  assume a: "isascii s"
  have "map (\<lambda>c. (of_char (char_of c :: char) :: nat)) s = s"
    using a by (induction s) (simp_all add: isascii_def)
  moreover have "list_all (\<lambda>c. (of_char c :: nat) < 0x80) (map char_of s)"
    using a by (induction s) (simp_all add: isascii_def)
  ultimately show ?thesis by (simp add: decode_ascii_def comp_def)
qed

lemma encode_json_dumps: "encode (json_dumps dct) = Inr (map char_of (json_dumps dct))"
  by (rule encode_isascii [OF isascii_json_dumps])

lemma create_credential_temp_file_run:
  assumes "mkstemp_inner (files w) (tmp_names w) = Some (name, rest)"
  shows "create_credential_temp_file self w =
      (Inr name, w\<lparr>files := (files w)(name \<mapsto> map char_of (json_dumps (dict self))),
                    tmp_names := rest\<rparr>)"
  by (simp add: create_credential_temp_file_def NamedTemporaryFile_def assms encode_json_dumps)

lemma dict_strs: "list_all is_str (field_values self) \<Longrightarrow> list_all strs (dict self)"
  by (cases "client_x509_cert_url self")
     (simp_all add: field_values_def dict_def strs_def, simp_all add: is_str_def lit_def)

lemma dict_whole:
  "list_all (\<lambda>s. \<not> split_pair s) (field_values self) \<Longrightarrow> map restored (dict self) = dict self"
  by (cases "client_x509_cert_url self")
     (simp_all add: field_values_def dict_def restored_def join_surrogates_id,
      simp_all add: lit_def high_surrogate_def)

text \<open>
  What the file holds and what reading it gives, for every key whose values are Python
  strings: the JSON text of the dict of the key, and the dict with the split pairs joined.
\<close>

lemma create_credential_temp_file_reads_back:
  assumes free: "\<exists>name \<in> set (tmp_names w). files w name = None"
    and strs: "list_all is_str (field_values self)"
  shows "\<exists>path content w'.
           create_credential_temp_file self w = (Inr path, w')
         \<and> files w path = None
         \<and> files w' path = Some content
         \<and> encode (json_dumps (dict self)) = Inr content
         \<and> decode_ascii content = Some (json_dumps (dict self))
         \<and> json_loads (json_dumps (dict self)) = Some (map restored (dict self))
         \<and> (\<forall>p. p \<noteq> path \<longrightarrow> files w' p = files w p)"
proof -
  from mkstemp_inner_finds [OF free] obtain name rest
    where mk: "mkstemp_inner (files w) (tmp_names w) = Some (name, rest)" by blast
  have new: "files w name = None" using mkstemp_inner_Some [OF mk] by simp
  note run = create_credential_temp_file_run [OF mk, of self]
  show ?thesis
    using new
    by (simp add: run encode_json_dumps decode_ascii_bytes [OF isascii_json_dumps]
        json_loads_json_dumps [OF dict_strs [OF strs]])
qed

text \<open>
  Claim C6, as stated, fails. A key whose \<open>private_key\<close> is the two code points
  \<open>U+D83D\<close>, \<open>U+DE00\<close> is a validated key; the JSON text in its file holds the
  two escapes, and parsing that text gives a \<open>private_key\<close> of the one code point
  \<open>U+1F600\<close>, so the parsed pairs are not the field values of the record.
\<close>

theorem split_surrogate_pair_not_restored:
  "\<exists>key w' content text pairs.
     GCPServiceAccountKey_init (example_key_data\<lparr>private_key := Some [0xD83D, 0xDE00]\<rparr>) = Inr key
   \<and> private_key key = [0xD83D, 0xDE00]
   \<and> create_credential_temp_file key example_world = (Inr ''/tmp/tmpk3x9q2ab'', w')
   \<and> files w' ''/tmp/tmpk3x9q2ab'' = Some content
   \<and> decode_ascii content = Some text
   \<and> json_loads text = Some pairs
   \<and> map_of pairs (lit ''private_key'') = Some (Some [0x1F600])
   \<and> pairs \<noteq> dict key"
proof -
  let ?key = "example_key\<lparr>private_key := [0xD83D, 0xDE00]\<rparr>"
  have init: "GCPServiceAccountKey_init (example_key_data\<lparr>private_key := Some [0xD83D, 0xDE00]\<rparr>)
                = Inr ?key"
    by (simp add: GCPServiceAccountKey_init_def GCPServiceAccountKey_validate_fields_def
        missing_def validate_config_def example_key_data_def example_key_def
        default_field_def optional_field_def lit_def)
  have free: "\<exists>name \<in> set (tmp_names example_world). files example_world name = None"
    by (simp add: example_world_def)
  have strs: "list_all is_str (field_values ?key)"
    by (simp add: field_values_def example_key_def is_str_def lit_def)
  from create_credential_temp_file_reads_back [OF free strs] obtain path content w' where
    r: "create_credential_temp_file ?key example_world = (Inr path, w')"
       "files w' path = Some content"
       "decode_ascii content = Some (json_dumps (dict ?key))"
       "json_loads (json_dumps (dict ?key)) = Some (map restored (dict ?key))"
    by blast
  have "fst (create_credential_temp_file ?key example_world) = Inr ''/tmp/tmpk3x9q2ab''"
    by (simp add: create_credential_temp_file_def NamedTemporaryFile_def example_world_def
        encode_json_dumps)
  with r have path: "path = ''/tmp/tmpk3x9q2ab''" by simp
  have pk: "map_of (map restored (dict ?key)) (lit ''private_key'') = Some (Some [0x1F600])"
    by (simp add: dict_def restored_def lit_def high_surrogate_def low_surrogate_def)
  have "map_of (dict ?key) (lit ''private_key'') = Some (Some [0xD83D, 0xDE00])"
    by (simp add: dict_def lit_def)
  with pk have ne: "map restored (dict ?key) \<noteq> dict ?key" by auto
  from init r path pk ne show ?thesis
    by (intro exI [of _ ?key] exI [of _ w'] exI [of _ content]
        exI [of _ "json_dumps (dict ?key)"] exI [of _ "map restored (dict ?key)"]) simp
qed

text \<open>
  Claim C6, amended. Take a key whose field values are Python strings none of which
  holds a high surrogate followed at once by a low surrogate. When the name generator
  has a name that is not taken, \<open>create_credential_temp_file\<close> returns a path at which
  no file existed before and at which there is now a file; its bytes are the encoding of
  the JSON text of the ten fields and their values, they read as that text, and parsing
  the text gives the ten fields with exactly their values. No other file changes.
\<close>

theorem create_credential_temp_file_roundtrip:
  assumes free: "\<exists>name \<in> set (tmp_names w). files w name = None"
    and strs: "list_all is_str (field_values self)"
    and whole: "list_all (\<lambda>s. \<not> split_pair s) (field_values self)"
  shows "let fields =
              [(lit ''project_id'', Some (GCPServiceAccountKey_fields.project_id self)),
               (lit ''private_key_id'', Some (private_key_id self)),
               (lit ''private_key'', Some (private_key self)),
               (lit ''client_email'', Some (client_email self)),
               (lit ''client_id'', Some (client_id self)),
               (lit ''auth_uri'', Some (auth_uri self)),
               (lit ''token_uri'', Some (token_uri self)),
               (lit ''auth_provider_x509_cert_url'', Some (auth_provider_x509_cert_url self)),
               (lit ''type'', Some (type self)),
               (lit ''client_x509_cert_url'', client_x509_cert_url self)]
         in \<exists>path content w'.
              create_credential_temp_file self w = (Inr path, w')
            \<and> files w path = None
            \<and> files w' path = Some content
            \<and> encode (json_dumps fields) = Inr content
            \<and> decode_ascii content = Some (json_dumps fields)
            \<and> json_loads (json_dumps fields) = Some fields
            \<and> (\<forall>p. p \<noteq> path \<longrightarrow> files w' p = files w p)"
  using create_credential_temp_file_reads_back [OF free strs, unfolded dict_whole [OF whole]]
  unfolding Let_def dict_def [symmetric] .

text \<open>The example key in the example state, whose one temporary name is free.\<close>

theorem create_credential_temp_file_roundtrip_witness:
  "\<exists>content text w'.
     create_credential_temp_file example_key example_world = (Inr ''/tmp/tmpk3x9q2ab'', w')
   \<and> files example_world ''/tmp/tmpk3x9q2ab'' = None
   \<and> files w' ''/tmp/tmpk3x9q2ab'' = Some content
   \<and> decode_ascii content = Some text
   \<and> json_loads text =
       Some [(lit ''project_id'', Some (lit ''proj'')),
             (lit ''private_key_id'', Some (lit ''kid'')),
             (lit ''private_key'', Some (lit ''secret'')),
             (lit ''client_email'', Some (lit ''svc@proj.iam.gserviceaccount.com'')),
             (lit ''client_id'', Some (lit ''42'')),
             (lit ''auth_uri'', Some (lit ''https://accounts.google.com/o/oauth2/auth'')),
             (lit ''token_uri'', Some (lit ''https://oauth2.googleapis.com/token'')),
             (lit ''auth_provider_x509_cert_url'',
                Some (lit ''https://www.googleapis.com/oauth2/v1/certs'')),
             (lit ''type'', Some (lit ''service_account'')),
             (lit ''client_x509_cert_url'',
                Some (lit ''https://www.googleapis.com/robot/v1/metadata/x509/svc@proj.iam.gserviceaccount.com''))]"
proof -
  have free: "\<exists>name \<in> set (tmp_names example_world). files example_world name = None"
    by (simp add: example_world_def)
  have strs: "list_all is_str (field_values example_key)"
    by (simp add: field_values_def example_key_def is_str_def lit_def)
  have whole: "list_all (\<lambda>s. \<not> split_pair s) (field_values example_key)"
    by (simp add: field_values_def example_key_def lit_def high_surrogate_def)
  let ?fields = "dict example_key"
  from create_credential_temp_file_roundtrip [OF free strs whole]
  obtain path content w' where
    r: "create_credential_temp_file example_key example_world = (Inr path, w')"
       "files example_world path = None" "files w' path = Some content"
       "decode_ascii content = Some (json_dumps ?fields)"
       "json_loads (json_dumps ?fields) = Some ?fields"
    unfolding Let_def dict_def [symmetric] by blast
  have "fst (create_credential_temp_file example_key example_world) = Inr ''/tmp/tmpk3x9q2ab''"
    by (simp add: create_credential_temp_file_def NamedTemporaryFile_def example_world_def
        encode_json_dumps)
  with r have path: "path = ''/tmp/tmpk3x9q2ab''" by simp
  have fields: "?fields =
       [(lit ''project_id'', Some (lit ''proj'')),
             (lit ''private_key_id'', Some (lit ''kid'')),
             (lit ''private_key'', Some (lit ''secret'')),
             (lit ''client_email'', Some (lit ''svc@proj.iam.gserviceaccount.com'')),
             (lit ''client_id'', Some (lit ''42'')),
             (lit ''auth_uri'', Some (lit ''https://accounts.google.com/o/oauth2/auth'')),
             (lit ''token_uri'', Some (lit ''https://oauth2.googleapis.com/token'')),
             (lit ''auth_provider_x509_cert_url'',
                Some (lit ''https://www.googleapis.com/oauth2/v1/certs'')),
             (lit ''type'', Some (lit ''service_account'')),
             (lit ''client_x509_cert_url'',
                Some (lit ''https://www.googleapis.com/robot/v1/metadata/x509/svc@proj.iam.gserviceaccount.com''))]"
    by (simp add: dict_def example_key_def)
  from r path show ?thesis unfolding fields by blast
qed

section \<open>Properties of the GCP source config\<close>

lemma create_credential_temp_file_frame:
  "create_credential_temp_file key w = (r, w') \<Longrightarrow> environ w' = environ w \<and> log w' = log w"
  by (auto simp: create_credential_temp_file_def NamedTemporaryFile_def Let_def encode_json_dumps
      split: option.splits prod.splits)

lemma create_credential_temp_file_Inr:
  "create_credential_temp_file key w = (Inr path, w') \<Longrightarrow>
     files w path = None \<and> files w' path = Some (map char_of (json_dumps (dict key)))"
  by (auto simp: create_credential_temp_file_def NamedTemporaryFile_def Let_def encode_json_dumps
      dest: mkstemp_inner_Some split: option.splits prod.splits)

lemma create_credential_temp_file_succeeds:
  "\<exists>name \<in> set (tmp_names w). files w name = None \<Longrightarrow>
   \<exists>path w'. create_credential_temp_file key w = (Inr path, w')"
  by (drule mkstemp_inner_finds)
     (auto simp: create_credential_temp_file_def NamedTemporaryFile_def Let_def encode_json_dumps)

lemma create_credential_temp_file_needs_name:
  "create_credential_temp_file key w = (Inr path, w') \<Longrightarrow>
   \<exists>name \<in> set (tmp_names w). files w name = None"
  by (auto simp: create_credential_temp_file_def NamedTemporaryFile_def Let_def encode_json_dumps
      dest: mkstemp_inner_Some split: option.splits prod.splits)

lemma init_credentials_None:
  "credential self = None \<Longrightarrow> init_credentials self w = (Inr self, w)"
  by (simp add: init_credentials_def)

lemma init_credentials_Inl:
  "init_credentials self w = (Inl e, w') \<Longrightarrow> environ w' = environ w"
  by (auto simp: init_credentials_def split: option.splits prod.splits sum.splits
      dest: create_credential_temp_file_frame)

lemma init_credentials_Inr:
  "init_credentials self w = (Inr cfg, w') \<Longrightarrow> credential self = Some key \<Longrightarrow>
   \<exists>path w1. create_credential_temp_file key w = (Inr path, w1)
     \<and> cfg = self\<lparr>credentials_path := Some path\<rparr>
     \<and> environ w' = (environ w)(''GOOGLE_APPLICATION_CREDENTIALS'' \<mapsto> path)
     \<and> files w' = files w1
     \<and> log w' = log w @ [(''DEBUG'', ''Creating temporary credential file at '' @ path)]"
  by (auto simp: init_credentials_def split: option.splits prod.splits sum.splits
      dest: create_credential_temp_file_frame)

lemma init_credentials_fields:
  "init_credentials self w = (Inr cfg, w') \<Longrightarrow>
   \<exists>p. cfg = self\<lparr>credentials_path := p\<rparr>"
  by (auto simp: init_credentials_def split: option.splits prod.splits sum.splits)
     (metis GCPSourceConfig.surjective GCPSourceConfig.update_convs(4))

lemma init_credentials_log:
  "init_credentials self w = (r, w') \<Longrightarrow> set (log w) \<subseteq> set (log w')"
  by (auto simp: init_credentials_def split: option.splits prod.splits sum.splits
      dest: create_credential_temp_file_frame)

lemma init_credentials_log_cases:
  "init_credentials self w = (Inr cfg, w') \<Longrightarrow>
   log w' = log w
   \<or> (\<exists>path. log w' = log w @ [(''DEBUG'', ''Creating temporary credential file at '' @ path)])"
  by (auto simp: init_credentials_def split: option.splits prod.splits sum.splits
      dest: create_credential_temp_file_frame)

lemma validate_credential_not_supplied:
  "supplied a = None \<Longrightarrow> validate_credential a = Inr (None, [])"
  by (simp add: validate_credential_def)

lemma validate_credential_supplied_ok:
  "validate_credential a = Inr (cred, []) \<Longrightarrow> supplied a = Some kd \<Longrightarrow>
   \<exists>key. cred = Some key \<and> GCPServiceAccountKey_init kd = Inr key"
  by (auto simp: validate_credential_def split: option.splits sum.splits error.splits)

lemma example_key_init: "GCPServiceAccountKey_init example_key_data = Inr example_key"
  by (simp add: GCPServiceAccountKey_init_def GCPServiceAccountKey_validate_fields_def
      missing_def validate_config_def example_key_data_def example_key_def
      default_field_def optional_field_def lit_def)

text \<open>
  Claim C1. For every construction of a \<open>GCPSourceConfig\<close>: with no credential
  supplied (absent or \<open>None\<close>) the environment is unchanged; when construction raises,
  whatever the reason, the environment is unchanged; when a credential is supplied and
  construction succeeds, the object holds the validated key, and the variable
  \<open>GOOGLE_APPLICATION_CREDENTIALS\<close> is set to the path that
  \<open>create_credential_temp_file\<close> returned for that key, which is also the object's
  \<open>_credentials_path\<close>.
\<close>

theorem credentials_env_set_only_on_success:
  assumes run: "GCPSourceConfig_init d data w = (r, w')"
  shows "(supplied (arg_credential data) = None \<longrightarrow> environ w' = environ w)
       \<and> (\<forall>e. r = Inl e \<longrightarrow> environ w' = environ w)
       \<and> (\<forall>cfg kd. r = Inr cfg \<and> supplied (arg_credential data) = Some kd \<longrightarrow>
            (\<exists>key path w1.
               GCPServiceAccountKey_init kd = Inr key
             \<and> credential cfg = Some key
             \<and> create_credential_temp_file key w = (Inr path, w1)
             \<and> credentials_path cfg = Some path
             \<and> environ w' = (environ w)(''GOOGLE_APPLICATION_CREDENTIALS'' \<mapsto> path)))"
proof (intro conjI impI allI)
  assume "supplied (arg_credential data) = None"
  then show "environ w' = environ w"
    using run
    by (auto simp: GCPSourceConfig_init_def GCPSourceConfig_validate_def
        validate_credential_not_supplied init_credentials_None)
next
  fix e
  assume "r = Inl e"
  then show "environ w' = environ w"
    using run
    by (auto simp: GCPSourceConfig_init_def GCPSourceConfig_validate_def
        split: sum.splits prod.splits if_splits dest: init_credentials_Inl)
next
  fix cfg kd
  assume a: "r = Inr cfg \<and> supplied (arg_credential data) = Some kd"
  from run a obtain self where
    v: "GCPSourceConfig_validate d data = Inr self" and i: "init_credentials self w = (Inr cfg, w')"
    by (auto simp: GCPSourceConfig_init_def split: sum.splits)
  from v obtain cred where vc: "validate_credential (arg_credential data) = Inr (cred, [])"
    and self: "credential self = cred"
    by (auto simp: GCPSourceConfig_validate_def split: sum.splits prod.splits if_splits)
  from validate_credential_supplied_ok [OF vc] a obtain key where
    key: "cred = Some key" "GCPServiceAccountKey_init kd = Inr key" by blast
  from init_credentials_Inr [OF i] self key obtain path w1 where
    "create_credential_temp_file key w = (Inr path, w1)"
    "cfg = self\<lparr>credentials_path := Some path\<rparr>"
    "environ w' = (environ w)(''GOOGLE_APPLICATION_CREDENTIALS'' \<mapsto> path)"
    by blast
  then show "\<exists>key path w1.
               GCPServiceAccountKey_init kd = Inr key
             \<and> credential cfg = Some key
             \<and> create_credential_temp_file key w = (Inr path, w1)
             \<and> credentials_path cfg = Some path
             \<and> environ w' = (environ w)(''GOOGLE_APPLICATION_CREDENTIALS'' \<mapsto> path)"
    using key self by auto
qed

text \<open>
  In the example state: the example key as credential, no credential, and a credential
  that lacks a required field.
\<close>

theorem credentials_env_set_only_on_success_witness:
  "(\<exists>cfg w' w1.
      GCPSourceConfig_init upstream_decls example_source_args example_world = (Inr cfg, w')
    \<and> credential cfg = Some example_key
    \<and> create_credential_temp_file example_key example_world = (Inr ''/tmp/tmpk3x9q2ab'', w1)
    \<and> environ w' ''GOOGLE_APPLICATION_CREDENTIALS'' = Some ''/tmp/tmpk3x9q2ab'')
   \<and> (\<exists>cfg w'.
      GCPSourceConfig_init upstream_decls (example_source_args\<lparr>arg_credential := None\<rparr>)
        example_world = (Inr cfg, w')
    \<and> environ w' = environ example_world)
   \<and> (\<exists>w'.
      GCPSourceConfig_init upstream_decls
        (example_source_args\<lparr>arg_credential := Some (Some (example_key_data\<lparr>client_id := None\<rparr>))\<rparr>)
        example_world = (Inl (ValidationError [''credential'']), w')
    \<and> environ w' = environ example_world)"
proof (intro conjI)
  obtain r w' where run: "GCPSourceConfig_init upstream_decls example_source_args example_world = (r, w')"
    by (cases "GCPSourceConfig_init upstream_decls example_source_args example_world")
  have tmp: "\<exists>w1. create_credential_temp_file example_key example_world = (Inr ''/tmp/tmpk3x9q2ab'', w1)"
    by (simp add: create_credential_temp_file_def NamedTemporaryFile_def example_world_def
        encode_json_dumps)
  have "\<exists>cfg. fst (GCPSourceConfig_init upstream_decls example_source_args example_world) = Inr cfg"
    using tmp
    by (auto simp: GCPSourceConfig_init_def GCPSourceConfig_validate_def validate_credential_def
        example_source_args_def supplied_def example_key_init init_credentials_def)
  with run obtain cfg where r: "r = Inr cfg" by auto
  have sup: "supplied (arg_credential example_source_args) = Some example_key_data"
    by (simp add: example_source_args_def supplied_def)
  from credentials_env_set_only_on_success [OF run] r sup obtain key path w1 where
    k: "GCPServiceAccountKey_init example_key_data = Inr key" "credential cfg = Some key"
       "create_credential_temp_file key example_world = (Inr path, w1)"
       "environ w' = (environ example_world)(''GOOGLE_APPLICATION_CREDENTIALS'' \<mapsto> path)"
    by blast
  from k(1) have key: "key = example_key" by (simp add: example_key_init)
  from tmp k(3) key have "path = ''/tmp/tmpk3x9q2ab''" by auto
  with run r k key show "\<exists>cfg w' w1.
      GCPSourceConfig_init upstream_decls example_source_args example_world = (Inr cfg, w')
    \<and> credential cfg = Some example_key
    \<and> create_credential_temp_file example_key example_world = (Inr ''/tmp/tmpk3x9q2ab'', w1)
    \<and> environ w' ''GOOGLE_APPLICATION_CREDENTIALS'' = Some ''/tmp/tmpk3x9q2ab''"
    by auto
next
  let ?data = "example_source_args\<lparr>arg_credential := None\<rparr>"
  obtain r w' where run: "GCPSourceConfig_init upstream_decls ?data example_world = (r, w')"
    by (cases "GCPSourceConfig_init upstream_decls ?data example_world")
  have none: "supplied (arg_credential ?data) = None" by (simp add: supplied_def)
  from credentials_env_set_only_on_success [OF run] none
  have env: "environ w' = environ example_world" by blast
  have "\<exists>cfg. fst (GCPSourceConfig_init upstream_decls ?data example_world) = Inr cfg"
    by (simp add: GCPSourceConfig_init_def GCPSourceConfig_validate_def validate_credential_def
        supplied_def init_credentials_def)
  with run env show "\<exists>cfg w'. GCPSourceConfig_init upstream_decls ?data example_world = (Inr cfg, w')
    \<and> environ w' = environ example_world"
    by auto
next
  let ?data = "example_source_args\<lparr>arg_credential := Some (Some (example_key_data\<lparr>client_id := None\<rparr>))\<rparr>"
  obtain r w' where run: "GCPSourceConfig_init upstream_decls ?data example_world = (r, w')"
    by (cases "GCPSourceConfig_init upstream_decls ?data example_world")
  have "fst (GCPSourceConfig_init upstream_decls ?data example_world)
          = Inl (ValidationError [''credential''])"
    by (simp add: GCPSourceConfig_init_def GCPSourceConfig_validate_def validate_credential_def
        supplied_def GCPServiceAccountKey_init_def GCPServiceAccountKey_validate_fields_def
        missing_def validate_config_def example_key_data_def optional_field_def)
  with run have r: "r = Inl (ValidationError [''credential''])" by simp
  from credentials_env_set_only_on_success [OF run] r
  have "environ w' = environ example_world" by blast
  with run r show "\<exists>w'. GCPSourceConfig_init upstream_decls ?data example_world
        = (Inl (ValidationError [''credential'']), w')
    \<and> environ w' = environ example_world"
    by auto
qed

section \<open>Properties of the BigQuery usage config\<close>

subsection \<open>The steps and their closed form\<close>

lemmas ex_defs = returns_def raises_def and_then_def

lemma BigQueryUsageConfig_validate_closed:
  "BigQueryUsageConfig_validate d data w =
     (case arg_platform_instance data of
        Some v \<Rightarrow>
          (Inl (ConfigurationError
             ''BigQuery project-ids are globally unique. You don't need to provide a platform_instance''), w)
      | None \<Rightarrow>
          (case validate_credential (arg_credential data) of
             Inl e \<Rightarrow> (Inl e, w)
           | Inr (cred, es) \<Rightarrow>
               if exported_conflict data then
                 (Inl (ConfigurationError
                    ''To use exported BigQuery audit metadata, you must also use v2 audit metadata''),
                  deprecation_logged data w)
               else if duration_overflow data then
                 (Inl OverflowError, deprecation_logged data w)
               else if es @ size_errors data \<noteq> [] then
                 (Inl (ValidationError (es @ size_errors data)), deprecation_logged data w)
               else (Inr (validated_values d data cred), deprecation_logged data w)))"
proof (cases "arg_platform_instance data")
  case (Some v)
  then show ?thesis
    by (simp add: BigQueryUsageConfig_validate_def BigQueryUsageConfig_fields_def ex_defs
        field_platform_def field_platform_instance_def
        bigquery_platform_instance_is_meaningless_def split: option.splits)
next
  case None
  note pi = this
  show ?thesis
  proof (cases "validate_credential (arg_credential data)")
    case (Inl e)
    then show ?thesis
      using pi
      by (simp add: BigQueryUsageConfig_validate_def BigQueryUsageConfig_fields_def ex_defs
          field_platform_def field_platform_instance_def field_credential_def
          split: option.splits)
  next
    case (Inr r)
    obtain cred es where r: "r = (cred, es)" by (cases r)
    show ?thesis
      using pi Inr r
      by (auto simp: BigQueryUsageConfig_validate_def BigQueryUsageConfig_fields_def ex_defs
          field_platform_def field_platform_instance_def field_credential_def
          field_projects_def field_project_id_def field_extra_client_options_def
          field_use_v2_audit_metadata_def field_bigquery_audit_metadata_datasets_def
          field_use_exported_bigquery_audit_metadata_def
          field_use_date_sharded_audit_log_tables_def field_table_pattern_def
          field_dataset_pattern_def field_log_page_size_def field_query_log_delay_def
          field_max_query_duration_def field_temp_table_dataset_prefix_def
          note_project_id_deprecation_def platform_is_always_bigquery_def
          use_exported_bigquery_audit_metadata_uses_v2_def
          exported_conflict_def deprecation_logged_def size_errors_def validated_values_def
          no_values_def default_field_def timedelta_def duration_overflow_def
          split: option.splits)
  qed
qed

lemma deprecation_logged_frame:
  "environ (deprecation_logged data w) = environ w"
  "files (deprecation_logged data w) = files w"
  "tmp_names (deprecation_logged data w) = tmp_names w"
  by (simp_all add: deprecation_logged_def split: option.splits)

lemma size_errors_permitted:
  "size_errors data = [] \<longleftrightarrow>
     (case arg_log_page_size data of None \<Rightarrow> True | Some n \<Rightarrow> 0 < n)
   \<and> (case supplied (arg_query_log_delay data) of None \<Rightarrow> True | Some n \<Rightarrow> 0 < n)"
  by (auto simp: size_errors_def split: option.splits)

lemma BigQueryUsageConfig_init_Inr:
  assumes "BigQueryUsageConfig_init d data w = (Inr cfg, w')"
  shows "\<exists>cred self w1.
           validate_credential (arg_credential data) = Inr (cred, [])
         \<and> arg_platform_instance data = None
         \<and> \<not> exported_conflict data
         \<and> \<not> duration_overflow data
         \<and> size_errors data = []
         \<and> self = validated_values d data cred
         \<and> w1 = deprecation_logged data w
         \<and> init_credentials self w1 = (Inr cfg, w')"
  using assms
  by (auto simp: BigQueryUsageConfig_init_def and_then_def BigQueryUsageConfig_validate_closed
      split: option.splits sum.splits prod.splits if_splits)

lemma BigQueryUsageConfig_init_values:
  assumes "BigQueryUsageConfig_init d data w = (Inr cfg, w')"
  shows "\<exists>cred p. cfg = (validated_values d data cred)\<lparr>credentials_path := p\<rparr>"
proof -
  from BigQueryUsageConfig_init_Inr [OF assms] obtain cred where
    "init_credentials (validated_values d data cred) (deprecation_logged data w) = (Inr cfg, w')"
    by blast
  from init_credentials_fields [OF this] show ?thesis by blast
qed

lemma BigQueryUsageConfig_init_log:
  assumes "BigQueryUsageConfig_init d data w = (Inr cfg, w')"
  shows "set (log (deprecation_logged data w)) \<subseteq> set (log w')"
proof -
  from BigQueryUsageConfig_init_Inr [OF assms] obtain cred where
    "init_credentials (validated_values d data cred) (deprecation_logged data w) = (Inr cfg, w')"
    by blast
  from init_credentials_log [OF this] show ?thesis .
qed

lemma BigQueryUsageConfig_init_succeeds:
  assumes "other_rules_permit data w" "\<not> exported_conflict data"
  shows "\<exists>cfg w'. BigQueryUsageConfig_init d data w = (Inr cfg, w')"
proof -
  from assms(1) obtain cred where
    pi: "arg_platform_instance data = None"
    and vc: "validate_credential (arg_credential data) = Inr (cred, [])"
    and tmp: "cred = None \<or> (\<exists>name \<in> set (tmp_names w). files w name = None)"
    and sz: "size_errors data = []"
    and dur: "\<not> duration_overflow data"
    by (auto simp: other_rules_permit_def size_errors_permitted duration_overflow_def
        split: sum.splits prod.splits option.splits)
  let ?w1 = "deprecation_logged data w"
  have v: "BigQueryUsageConfig_validate d data w = (Inr (validated_values d data cred), ?w1)"
    using pi vc sz dur assms(2) by (simp add: BigQueryUsageConfig_validate_closed)
  have "\<exists>cfg w'. init_credentials (validated_values d data cred) ?w1 = (Inr cfg, w')"
  proof (cases cred)
    case None
    then show ?thesis by (simp add: init_credentials_def validated_values_def)
  next
    case (Some key)
    with tmp have "\<exists>name \<in> set (tmp_names ?w1). files ?w1 name = None"
      by (simp add: deprecation_logged_frame)
    from create_credential_temp_file_succeeds [OF this, of key] obtain path w2 where
      "create_credential_temp_file key ?w1 = (Inr path, w2)" by blast
    then show ?thesis using Some by (simp add: init_credentials_def validated_values_def)
  qed
  then show ?thesis
    by (simp add: BigQueryUsageConfig_init_def and_then_def v)
qed

text \<open>
  Construction succeeds exactly when the audit-metadata flags do not conflict and the
  other rules permit.
\<close>

lemma BigQueryUsageConfig_init_succeeds_iff:
  "(\<exists>cfg w'. BigQueryUsageConfig_init d data w = (Inr cfg, w'))
   \<longleftrightarrow> other_rules_permit data w \<and> \<not> exported_conflict data"
proof
  assume "\<exists>cfg w'. BigQueryUsageConfig_init d data w = (Inr cfg, w')"
  then obtain cfg w' where ok: "BigQueryUsageConfig_init d data w = (Inr cfg, w')" by blast
  from BigQueryUsageConfig_init_Inr [OF ok] obtain cred where
    vc: "validate_credential (arg_credential data) = Inr (cred, [])"
    and pi: "arg_platform_instance data = None"
    and nc: "\<not> exported_conflict data"
    and dur: "\<not> duration_overflow data"
    and sz: "size_errors data = []"
    and i: "init_credentials (validated_values d data cred) (deprecation_logged data w) = (Inr cfg, w')"
    by blast
  have "cred = None \<or> (\<exists>name \<in> set (tmp_names w). files w name = None)"
  proof (cases cred)
    case None
    then show ?thesis by simp
  next
    case (Some key)
    then have "credential (validated_values d data cred) = Some key"
      by (simp add: validated_values_def)
    from init_credentials_Inr [OF i this] obtain path w1 where
      "create_credential_temp_file key (deprecation_logged data w) = (Inr path, w1)" by blast
    from create_credential_temp_file_needs_name [OF this] show ?thesis
      by (simp add: deprecation_logged_frame)
  qed
  with vc pi sz dur have "other_rules_permit data w"
    by (auto simp: other_rules_permit_def size_errors_permitted duration_overflow_def
        split: option.splits)
  with nc show "other_rules_permit data w \<and> \<not> exported_conflict data" by simp
next
  assume "other_rules_permit data w \<and> \<not> exported_conflict data"
  then show "\<exists>cfg w'. BigQueryUsageConfig_init d data w = (Inr cfg, w')"
    using BigQueryUsageConfig_init_succeeds by blast
qed


lemma no_args_permitted: "other_rules_permit no_args example_world \<and> \<not> exported_conflict no_args"
  by (simp add: other_rules_permit_def exported_conflict_def no_args_def supplied_def
      validate_credential_def)

text \<open>
  The bounds of the duration: 999999999 days and a second less than another day one way,
  999999999 days the other way. Past them construction raises \<open>OverflowError\<close>, if
  nothing raised before; so it does with \<open>project_id="p1"\<close> and a duration of
  86400000000000 seconds, after the deprecation warning.
\<close>

lemma timedelta_bounds:
  "timedelta 86399999999999 = Inr 86399999999999"
  "timedelta 86400000000000 = Inl OverflowError"
  "timedelta (- 86399999913600) = Inr (- 86399999913600)"
  "timedelta (- 86399999913601) = Inl OverflowError"
  by (simp_all add: timedelta_def)

lemma duration_overflow_raises:
  assumes "arg_platform_instance data = None"
    and "validate_credential (arg_credential data) = Inr r"
    and "\<not> exported_conflict data"
    and "duration_overflow data"
  shows "BigQueryUsageConfig_init d data w = (Inl OverflowError, deprecation_logged data w)"
  using assms
  by (cases r)
     (simp add: BigQueryUsageConfig_init_def and_then_def BigQueryUsageConfig_validate_closed)

lemma overflowing_duration_example:
  "BigQueryUsageConfig_init upstream_decls
     (no_args\<lparr>arg_project_id := Some (Some ''p1''),
              arg_max_query_duration := Some 86400000000000\<rparr>) example_world
   = (Inl OverflowError,
      example_world\<lparr>log :=
        [(''WARNING'', ''bigquery-usage project_id option is deprecated; use projects instead'')]\<rparr>)"
  by (simp add: BigQueryUsageConfig_init_def and_then_def BigQueryUsageConfig_validate_closed
      no_args_def validate_credential_def supplied_def exported_conflict_def
      duration_overflow_def deprecation_logged_def example_world_def)

text \<open>
  The subclass inherits the constructor body, and with it the effect on the
  environment.
\<close>

lemma BigQueryUsageConfig_validate_environ:
  "BigQueryUsageConfig_validate d data w = (r, w1) \<Longrightarrow> w1 = w \<or> w1 = deprecation_logged data w"
  by (auto simp: BigQueryUsageConfig_validate_closed split: option.splits sum.splits prod.splits if_splits)

lemma BigQueryUsageConfig_init_environ:
  assumes run: "BigQueryUsageConfig_init d data w = (r, w')"
  shows "(supplied (arg_credential data) = None \<longrightarrow> environ w' = environ w)
       \<and> (\<forall>e. r = Inl e \<longrightarrow> environ w' = environ w)
       \<and> (\<forall>cfg key. r = Inr cfg \<and> credential cfg = Some key \<longrightarrow>
            (\<exists>path. credentials_path cfg = Some path
               \<and> environ w' = (environ w)(''GOOGLE_APPLICATION_CREDENTIALS'' \<mapsto> path)
               \<and> files w' path = Some (map char_of (json_dumps (dict key)))))"
proof (intro conjI impI allI)
  fix e
  assume "r = Inl e"
  with run show "environ w' = environ w"
    by (auto simp: BigQueryUsageConfig_init_def and_then_def deprecation_logged_frame
        split: sum.splits prod.splits
        dest!: BigQueryUsageConfig_validate_environ init_credentials_Inl)
next
  assume none: "supplied (arg_credential data) = None"
  show "environ w' = environ w"
  proof (cases r)
    case (Inl e)
    with run show ?thesis
      by (auto simp: BigQueryUsageConfig_init_def and_then_def deprecation_logged_frame
          split: sum.splits prod.splits
          dest!: BigQueryUsageConfig_validate_environ init_credentials_Inl)
  next
    case (Inr cfg)
    from BigQueryUsageConfig_init_Inr [OF run [unfolded Inr]] obtain cred where
      vc: "validate_credential (arg_credential data) = Inr (cred, [])"
      and i: "init_credentials (validated_values d data cred) (deprecation_logged data w) = (Inr cfg, w')"
      by blast
    from vc none have "cred = None" by (simp add: validate_credential_not_supplied)
    with i show ?thesis
      by (auto simp: init_credentials_def validated_values_def deprecation_logged_frame)
  qed
next
  fix cfg key
  assume a: "r = Inr cfg \<and> credential cfg = Some key"
  from BigQueryUsageConfig_init_Inr [OF run [unfolded conjunct1 [OF a]]] obtain cred where
    i: "init_credentials (validated_values d data cred) (deprecation_logged data w) = (Inr cfg, w')"
    by blast
  from init_credentials_fields [OF i] a have c: "credential (validated_values d data cred) = Some key"
    by auto
  from init_credentials_Inr [OF i c] obtain path w1 where
    p: "create_credential_temp_file key (deprecation_logged data w) = (Inr path, w1)"
       "cfg = (validated_values d data cred)\<lparr>credentials_path := Some path\<rparr>"
       "environ w' = (environ (deprecation_logged data w))(''GOOGLE_APPLICATION_CREDENTIALS'' \<mapsto> path)"
       "files w' = files w1"
    by blast
  from create_credential_temp_file_Inr [OF p(1)] p
  show "\<exists>path. credentials_path cfg = Some path
               \<and> environ w' = (environ w)(''GOOGLE_APPLICATION_CREDENTIALS'' \<mapsto> path)
               \<and> files w' path = Some (map char_of (json_dumps (dict key)))"
    by (auto simp: deprecation_logged_frame)
qed

subsection \<open>The platform\<close>

text \<open>
  The validator is called on what is supplied, \<open>None\<close> included, and never on the
  default: the platform of a constructed object is \<open>bigquery\<close> when the keyword was
  supplied and the inherited default when it was omitted.
\<close>

lemma platform_after_construction:
  assumes "BigQueryUsageConfig_init d data w = (Inr cfg, w')"
  shows "(\<forall>v. arg_platform data = Some v \<longrightarrow> platform cfg = Some ''bigquery'')
       \<and> (arg_platform data = None \<longrightarrow> platform cfg = platform_default d)"
  using BigQueryUsageConfig_init_values [OF assms]
  by (auto simp: validated_values_def supplied_def optional_field_def)

text \<open>
  Claim C2. The claim is that the platform of a constructed object is \<open>bigquery\<close>
  also when the keyword is omitted. Constructing with no arguments succeeds with the
  inherited default as platform, whatever the declarations and the state; under the
  declarations of the datahub code base that default is \<open>None\<close>.
\<close>

theorem platform_omitted_keeps_default:
  "map_sum id platform (fst (BigQueryUsageConfig_init d no_args w)) = Inr (platform_default d)
   \<and> map_sum id platform (fst (BigQueryUsageConfig_init upstream_decls no_args example_world))
       = Inr None"
  by (simp add: BigQueryUsageConfig_init_def and_then_def BigQueryUsageConfig_validate_closed
      no_args_def supplied_def validate_credential_def exported_conflict_def size_errors_def
      duration_overflow_def
      deprecation_logged_def validated_values_def init_credentials_def optional_field_def
      upstream_decls_def)

subsection \<open>The deprecated project id\<close>

text \<open>
  Claim C3. With \<open>project_id\<close> supplied as a string \<open>p\<close>: construction succeeds
  when the other rules permit it; and whenever it succeeds, the object's \<open>projects\<close>
  is the list \<open>[p]\<close>, its \<open>project_id\<close> is \<open>None\<close>, and the deprecation warning
  is in the log.
\<close>

theorem project_id_moves_to_projects:
  assumes "arg_project_id data = Some (Some p)"
  shows "(other_rules_permit data w \<and> \<not> exported_conflict data \<longrightarrow>
            (\<exists>cfg w'. BigQueryUsageConfig_init d data w = (Inr cfg, w')))
       \<and> (\<forall>cfg w'. BigQueryUsageConfig_init d data w = (Inr cfg, w') \<longrightarrow>
            projects cfg = Some [Some p] \<and> project_id cfg = None
          \<and> (''WARNING'', ''bigquery-usage project_id option is deprecated; use projects instead'')
               \<in> set (log w'))"
proof (intro conjI impI allI)
  assume "other_rules_permit data w \<and> \<not> exported_conflict data"
  then show "\<exists>cfg w'. BigQueryUsageConfig_init d data w = (Inr cfg, w')"
    using BigQueryUsageConfig_init_succeeds by blast
next
  fix cfg w'
  assume ok: "BigQueryUsageConfig_init d data w = (Inr cfg, w')"
  from BigQueryUsageConfig_init_values [OF ok] assms
  show "projects cfg = Some [Some p]" by (auto simp: validated_values_def supplied_def)
  from BigQueryUsageConfig_init_values [OF ok]
  show "project_id cfg = None" by (auto simp: validated_values_def)
  from BigQueryUsageConfig_init_log [OF ok] assms
  show "(''WARNING'', ''bigquery-usage project_id option is deprecated; use projects instead'')
          \<in> set (log w')"
    by (auto simp: deprecation_logged_def supplied_def)
qed

text \<open>Constructing with \<open>project_id="p1"\<close> and nothing else.\<close>

theorem project_id_moves_to_projects_witness:
  "\<exists>cfg w'.
     BigQueryUsageConfig_init upstream_decls (no_args\<lparr>arg_project_id := Some (Some ''p1'')\<rparr>)
       example_world = (Inr cfg, w')
   \<and> projects cfg = Some [Some ''p1''] \<and> project_id cfg = None
   \<and> (''WARNING'', ''bigquery-usage project_id option is deprecated; use projects instead'')
        \<in> set (log w')"
proof -
  let ?data = "no_args\<lparr>arg_project_id := Some (Some ''p1'')\<rparr>"
  have given: "arg_project_id ?data = Some (Some ''p1'')" by simp
  have permit: "other_rules_permit ?data example_world \<and> \<not> exported_conflict ?data"
    using no_args_permitted by (simp add: other_rules_permit_def exported_conflict_def)
  from project_id_moves_to_projects [OF given, of example_world upstream_decls] permit
  show ?thesis by blast
qed

text \<open>
  Claim C10. With both \<open>projects\<close> and \<open>project_id\<close> supplied as values,
  construction is not refused on that account, and the object's \<open>projects\<close> is the
  one-element list of the \<open>project_id\<close>, whatever list was supplied. Nothing tells
  of the discarded list: the log gains the deprecation warning of \<open>project_id\<close>
  and, with a credential, the debug line of its file, and nothing else.
\<close>

theorem projects_replaced_by_project_id:
  assumes "arg_projects data = Some (Some ps)" and "arg_project_id data = Some (Some p)"
  shows "(other_rules_permit data w \<and> \<not> exported_conflict data \<longrightarrow>
            (\<exists>cfg w'. BigQueryUsageConfig_init d data w = (Inr cfg, w')))
       \<and> (\<forall>cfg w'. BigQueryUsageConfig_init d data w = (Inr cfg, w') \<longrightarrow>
            projects cfg = Some [Some p]
          \<and> (\<exists>debug. log w' = log w @
                 (''WARNING'', ''bigquery-usage project_id option is deprecated; use projects instead'')
                 # debug
               \<and> (debug = [] \<or>
                  (\<exists>path. debug = [(''DEBUG'', ''Creating temporary credential file at '' @ path)]))))"
proof (intro conjI impI allI)
  assume "other_rules_permit data w \<and> \<not> exported_conflict data"
  then show "\<exists>cfg w'. BigQueryUsageConfig_init d data w = (Inr cfg, w')"
    using BigQueryUsageConfig_init_succeeds by blast
next
  fix cfg w'
  assume ok: "BigQueryUsageConfig_init d data w = (Inr cfg, w')"
  from BigQueryUsageConfig_init_values [OF ok] assms(2)
  show "projects cfg = Some [Some p]" by (auto simp: validated_values_def supplied_def)
  from BigQueryUsageConfig_init_Inr [OF ok] obtain cred where
    "init_credentials (validated_values d data cred) (deprecation_logged data w) = (Inr cfg, w')"
    by blast
  from init_credentials_log_cases [OF this] assms(2)
  show "\<exists>debug. log w' = log w @
                 (''WARNING'', ''bigquery-usage project_id option is deprecated; use projects instead'')
                 # debug
               \<and> (debug = [] \<or>
                  (\<exists>path. debug = [(''DEBUG'', ''Creating temporary credential file at '' @ path)]))"
    by (auto simp: deprecation_logged_def supplied_def)
qed

text \<open>Constructing with \<open>projects=["a", "b"]\<close> and \<open>project_id="p1"\<close>.\<close>

theorem projects_replaced_by_project_id_witness:
  "\<exists>cfg w'.
     BigQueryUsageConfig_init upstream_decls
       (no_args\<lparr>arg_projects := Some (Some [''a'', ''b'']), arg_project_id := Some (Some ''p1'')\<rparr>)
       example_world = (Inr cfg, w')
   \<and> projects cfg = Some [Some ''p1'']"
proof -
  let ?data = "no_args\<lparr>arg_projects := Some (Some [''a'', ''b'']), arg_project_id := Some (Some ''p1'')\<rparr>"
  have given: "arg_projects ?data = Some (Some [''a'', ''b''])" "arg_project_id ?data = Some (Some ''p1'')"
    by simp_all
  have permit: "other_rules_permit ?data example_world \<and> \<not> exported_conflict ?data"
    using no_args_permitted by (simp add: other_rules_permit_def exported_conflict_def)
  from projects_replaced_by_project_id [OF given, of example_world upstream_decls] permit
  show ?thesis by blast
qed

subsection \<open>The rejected platform instance\<close>

text \<open>
  Claim C7. With \<open>platform_instance\<close> supplied, as any string (and even as
  \<open>None\<close>), construction raises the \<open>ConfigurationError\<close> of the validator,
  whatever the other arguments; no object results and the process state is as before.
\<close>

theorem platform_instance_rejected:
  assumes "arg_platform_instance data = Some v"
  shows "BigQueryUsageConfig_init d data w =
           (Inl (ConfigurationError
              ''BigQuery project-ids are globally unique. You don't need to provide a platform_instance''),
            w)"
  using assms
  by (simp add: BigQueryUsageConfig_init_def and_then_def BigQueryUsageConfig_validate_closed
      supplied_def)

text \<open>Constructing with \<open>platform_instance="x"\<close>.\<close>

theorem platform_instance_rejected_witness:
  "BigQueryUsageConfig_init upstream_decls (no_args\<lparr>arg_platform_instance := Some (Some ''x'')\<rparr>)
     example_world
   = (Inl (ConfigurationError
        ''BigQuery project-ids are globally unique. You don't need to provide a platform_instance''),
      example_world)"
proof -
  have "arg_platform_instance (no_args\<lparr>arg_platform_instance := Some (Some ''x'')\<rparr>) = Some (Some ''x'')"
    by simp
  then show ?thesis by (rule platform_instance_rejected)
qed

subsection \<open>The audit-metadata flags\<close>





subsection \<open>The pattern strings\<close>

text \<open>
  Claim C4, as stated, fails: constructing with no arguments leaves \<open>table_pattern\<close>
  at its default, the pattern of \<open>allow_all()\<close>, and under the declarations of the
  datahub code base \<open>get_allow_pattern_string\<close> then returns \<open>.*\<close>, not the empty
  string.
\<close>

theorem default_table_pattern_allow_string:
  "map_sum id get_allow_pattern_string
     (fst (BigQueryUsageConfig_init upstream_decls no_args example_world)) = Inr ''.*''
   \<and> map_sum id get_allow_pattern_string
     (fst (BigQueryUsageConfig_init upstream_decls no_args example_world)) \<noteq> Inr ''''"
  by (simp add: BigQueryUsageConfig_init_def and_then_def BigQueryUsageConfig_validate_closed
      no_args_def supplied_def validate_credential_def exported_conflict_def size_errors_def
      duration_overflow_def
      deprecation_logged_def validated_values_def init_credentials_def default_field_def
      upstream_decls_def get_allow_pattern_string_def)

text \<open>
  Claim C4, amended. On a constructed object whose \<open>table_pattern\<close> was left at
  its default, \<open>get_allow_pattern_string\<close> and \<open>get_deny_pattern_string\<close> return
  the allow list and the deny list of \<open>allow_all()\<close> joined with \<open>|\<close>; with a
  pattern supplied they return its lists joined with \<open>|\<close>, so \<open>a|b\<close> for the allow
  list \<open>["a", "b"]\<close>. Construction never leaves \<open>table_pattern\<close> at \<open>None\<close>; on
  an object whose \<open>table_pattern\<close> is \<open>None\<close> both accessors return the empty
  string.
\<close>

theorem table_pattern_strings:
  assumes "BigQueryUsageConfig_init d data w = (Inr cfg, w')"
  shows "(arg_table_pattern data = None \<longrightarrow>
            get_allow_pattern_string cfg = join ''|'' (allow (allow_all d))
          \<and> get_deny_pattern_string cfg = join ''|'' (deny (allow_all d)))
       \<and> (\<forall>p. arg_table_pattern data = Some p \<longrightarrow>
            get_allow_pattern_string cfg = join ''|'' (allow p)
          \<and> get_deny_pattern_string cfg = join ''|'' (deny p))
       \<and> (\<forall>p. arg_table_pattern data = Some p \<and> allow p = [''a'', ''b''] \<longrightarrow>
            get_allow_pattern_string cfg = ''a|b'')
       \<and> table_pattern cfg \<noteq> None
       \<and> get_allow_pattern_string (cfg\<lparr>table_pattern := None\<rparr>) = ''''
       \<and> get_deny_pattern_string (cfg\<lparr>table_pattern := None\<rparr>) = ''''"
  using BigQueryUsageConfig_init_values [OF assms]
  by (auto simp: validated_values_def default_field_def get_allow_pattern_string_def
      get_deny_pattern_string_def)

text \<open>
  Constructing with the allow list \<open>["a", "b"]\<close> and the deny list \<open>["c", "d"]\<close>,
  and with no arguments under the declarations of the datahub code base.
\<close>

theorem table_pattern_strings_witness:
  "(\<exists>cfg w'.
      BigQueryUsageConfig_init upstream_decls
        (no_args\<lparr>arg_table_pattern := Some \<lparr>allow = [''a'', ''b''], deny = [''c'', ''d'']\<rparr>\<rparr>)
        example_world = (Inr cfg, w')
    \<and> get_allow_pattern_string cfg = ''a|b''
    \<and> get_deny_pattern_string cfg = ''c|d''
    \<and> get_allow_pattern_string (cfg\<lparr>table_pattern := None\<rparr>) = [])
   \<and> (\<exists>cfg w'.
      BigQueryUsageConfig_init upstream_decls no_args example_world = (Inr cfg, w')
    \<and> get_allow_pattern_string cfg = ''.*''
    \<and> get_deny_pattern_string cfg = [])"
proof
  let ?data = "no_args\<lparr>arg_table_pattern := Some \<lparr>allow = [''a'', ''b''], deny = [''c'', ''d'']\<rparr>\<rparr>"
  have permit: "other_rules_permit ?data example_world" "\<not> exported_conflict ?data"
    using no_args_permitted by (simp_all add: other_rules_permit_def exported_conflict_def)
  from BigQueryUsageConfig_init_succeeds [OF permit] obtain cfg w' where
    ok: "BigQueryUsageConfig_init upstream_decls ?data example_world = (Inr cfg, w')" by blast
  have given: "arg_table_pattern ?data = Some \<lparr>allow = [''a'', ''b''], deny = [''c'', ''d'']\<rparr>"
    by simp
  from table_pattern_strings [OF ok] given
  have "get_allow_pattern_string cfg = ''a|b''"
    and "get_deny_pattern_string cfg = ''c|d''"
    and "get_allow_pattern_string (cfg\<lparr>table_pattern := None\<rparr>) = []"
    by simp_all
  with ok show "\<exists>cfg w'.
      BigQueryUsageConfig_init upstream_decls ?data example_world = (Inr cfg, w')
    \<and> get_allow_pattern_string cfg = ''a|b''
    \<and> get_deny_pattern_string cfg = ''c|d''
    \<and> get_allow_pattern_string (cfg\<lparr>table_pattern := None\<rparr>) = []"
    by blast
next
  have permit: "other_rules_permit no_args example_world" "\<not> exported_conflict no_args"
    using no_args_permitted by simp_all
  from BigQueryUsageConfig_init_succeeds [OF permit] obtain cfg w' where
    ok: "BigQueryUsageConfig_init upstream_decls no_args example_world = (Inr cfg, w')" by blast
  have omitted: "arg_table_pattern no_args = None" by (simp add: no_args_def)
  from table_pattern_strings [OF ok] omitted
  have "get_allow_pattern_string cfg = ''.*''" and "get_deny_pattern_string cfg = []"
    by (simp_all add: upstream_decls_def)
  with ok show "\<exists>cfg w'.
      BigQueryUsageConfig_init upstream_decls no_args example_world = (Inr cfg, w')
    \<and> get_allow_pattern_string cfg = ''.*''
    \<and> get_deny_pattern_string cfg = []"
    by blast
qed

end
